theory Spec2Isabelle
  imports Main "HOL-Library.Sublist" "HOL-Library.Multiset"
begin

section \<open>Data model\<close>

text \<open>
  The two serverless functions \<^verbatim>\<open>/api/releases\<close> and \<^verbatim>\<open>/api/tasks\<close> read projects and
  tasks from the upstream REST API. A project is the upstream entity: \<open>archived\<close> is its
  state in the workspace, whether or not a handler asks for that field. A date the
  upstream has not set is \<open>null\<close>, here \<open>None\<close>. Fields that are requested but never inspected by a handler
  (owner, notes, creation time of a project) are left out.
\<close>

record project =
  gid :: string
  name :: string
  due_date :: "string option"
  archived :: bool

record task =
  task_gid :: string
  task_name :: string
  due_on :: "string option"
  completed :: bool
  assignee_name :: "string option"
  task_created_at :: string
  task_notes :: string

text \<open>
  The object built by \<^verbatim>\<open>{...task, project_name, project_gid, project_due_date}\<close>: a task
  extended by three fields.
\<close>

record annotated_task = task +
  project_name :: string
  project_gid :: string
  project_due_date :: "string option"

section \<open>Strings\<close>

text \<open>
  A character is a code point below 256. \<^verbatim>\<open>String.prototype.toLowerCase\<close> maps the
  letters A..Z and the Latin-1 capitals (U+00C0..U+00DE without the multiplication sign
  U+00D7) to the code point 32 above, and leaves every other code point of that range.
\<close>

definition toLowerCase_char :: "char \<Rightarrow> char" where
  "toLowerCase_char c =
     (let n = (of_char c :: nat)
      in if (65 \<le> n \<and> n \<le> 90) \<or> (192 \<le> n \<and> n \<le> 222 \<and> n \<noteq> 215)
         then char_of (n + 32) else c)"

definition toLowerCase :: "string \<Rightarrow> string" where
  "toLowerCase s = map toLowerCase_char s"

text \<open>\<^verbatim>\<open>s.includes(k)\<close>: \<open>k\<close> occurs in \<open>s\<close> as a contiguous run of characters.\<close>

definition includes_str :: "string \<Rightarrow> string \<Rightarrow> bool" where
  "includes_str s k = sublist k s"

text \<open>\<^verbatim>\<open>!v\<close> for a value that is a string, \<open>null\<close> or \<open>undefined\<close>.\<close>

definition falsy :: "string option \<Rightarrow> bool" where
  "falsy v = (case v of None \<Rightarrow> True | Some s \<Rightarrow> s = [])"

section \<open>Release classifier\<close>

text \<open>The keyword list of \<^verbatim>\<open>/api/tasks\<close> (tasks.js, lines 47-50).\<close>

definition tasks_releaseKeywords :: "string list" where
  "tasks_releaseKeywords =
     [''release'', ''ep'', ''single'', ''album'',
      ''[ep'', ''[single'', ''[album'', ''[release'']"

text \<open>The keyword list of \<^verbatim>\<open>/api/releases\<close> (lines 48-52).\<close>

definition releases_releaseKeywords :: "string list" where
  "releases_releaseKeywords =
     [''release'', ''ep'', ''single'', ''album'',
      ''[ep'', ''[single'', ''[album'', ''[release'',
      ''EP Release'', ''Single Release'', ''Album Release'']"

text \<open>
  \<^verbatim>\<open>releaseKeywords.some(keyword => name.includes(keyword.toLowerCase()))\<close>, for a name
  that is already lower-cased.
\<close>

definition some_keyword :: "string list \<Rightarrow> string \<Rightarrow> bool" where
  "some_keyword keywords nm = list_ex (\<lambda>keyword. includes_str nm (toLowerCase keyword)) keywords"

text \<open>The filter callback of \<^verbatim>\<open>/api/tasks\<close> (lines 52-55).\<close>

definition tasks_isReleaseProject :: "project \<Rightarrow> bool" where
  "tasks_isReleaseProject p = some_keyword tasks_releaseKeywords (toLowerCase (name p))"

text \<open>The filter callback of \<^verbatim>\<open>/api/releases\<close> (lines 54-60).\<close>

definition releases_isReleaseProject :: "project \<Rightarrow> bool" where
  "releases_isReleaseProject p =
     (if archived p then False
      else some_keyword releases_releaseKeywords (toLowerCase (name p)))"

section \<open>Dates and numbers\<close>

text \<open>
  A \<^verbatim>\<open>Date\<close> is its time value: milliseconds since the epoch, or \<open>NaN\<close> (\<open>None\<close>) for an
  invalid date. \<^verbatim>\<open>new Date(ms)\<close> clips to the range of valid time values.
\<close>

definition TimeClip :: "int \<Rightarrow> int option" where
  "TimeClip t = (if \<bar>t\<bar> \<le> 8640000000000000 then Some t else None)"

text \<open>
  \<^verbatim>\<open>new Date(v)\<close> for a field value \<open>v\<close>: \<open>null\<close> converts to the number 0, a string goes
  through the date parser \<open>parse\<close> of the runtime, which every function below takes as a
  parameter.
\<close>

definition Date_new :: "(string \<Rightarrow> int option) \<Rightarrow> string option \<Rightarrow> int option" where
  "Date_new parse v = (case v of None \<Rightarrow> Some 0 | Some s \<Rightarrow> parse s)"

text \<open>\<^verbatim>\<open>a <= b\<close> on numbers: false when either side is \<open>NaN\<close>.\<close>

definition num_le :: "int option \<Rightarrow> int option \<Rightarrow> bool" where
  "num_le a b = (case (a, b) of (Some x, Some y) \<Rightarrow> x \<le> y | _ \<Rightarrow> False)"

text \<open>\<^verbatim>\<open>a - b\<close> on numbers: \<open>NaN\<close> when either side is \<open>NaN\<close>.\<close>

definition num_sub :: "int option \<Rightarrow> int option \<Rightarrow> int option" where
  "num_sub a b = (case (a, b) of (Some x, Some y) \<Rightarrow> Some (x - y) | _ \<Rightarrow> None)"

text \<open>Decimal rendering of a number inside a template literal.\<close>

fun show_nat :: "nat \<Rightarrow> string" where
  "show_nat n =
     (if n < 10 then [char_of (48 + n)]
      else show_nat (n div 10) @ [char_of (48 + n mod 10)])"

subsection \<open>The date-only string format\<close>

text \<open>
  The upstream API writes \<^verbatim>\<open>due_on\<close> and \<^verbatim>\<open>due_date\<close> as \<^verbatim>\<open>YYYY-MM-DD\<close>. The runtime reads
  this date-only form as midnight UTC of that day; it takes any day from 1 to 31, and a
  day that the month does not have runs over into the next month. \<open>Date_parse\<close> is the
  parser restricted to this form: to a string of any other form, which the runtime may
  well read as a date, it answers \<open>NaN\<close>. It is the parser of the worked examples only,
  which use date-only strings and the string \<^verbatim>\<open>TBD\<close> that the runtime does not read as a
  date; the general results hold for every parser.
\<close>

definition msPerDay :: int where
  "msPerDay = 86400000"

definition digit_of :: "char \<Rightarrow> nat option" where
  "digit_of c =
     (let n = (of_char c :: nat) in if 48 \<le> n \<and> n \<le> 57 then Some (n - 48) else None)"

fun decimal_from :: "nat \<Rightarrow> string \<Rightarrow> nat option" where
  "decimal_from acc [] = Some acc"
| "decimal_from acc (c # cs) =
     (case digit_of c of None \<Rightarrow> None | Some d \<Rightarrow> decimal_from (10 * acc + d) cs)"

definition InLeapYear :: "int \<Rightarrow> bool" where
  "InLeapYear y = (y mod 4 = 0 \<and> (y mod 100 \<noteq> 0 \<or> y mod 400 = 0))"

definition DayFromYear :: "int \<Rightarrow> int" where
  "DayFromYear y =
     365 * (y - 1970) + (y - 1969) div 4 - (y - 1901) div 100 + (y - 1601) div 400"

definition month_lengths :: "int \<Rightarrow> nat list" where
  "month_lengths y =
     [31, if InLeapYear y then 29 else 28, 31, 30, 31, 30, 31, 31, 30, 31, 30, 31]"

definition MakeDay :: "int \<Rightarrow> nat \<Rightarrow> nat \<Rightarrow> int" where
  "MakeDay y m d = DayFromYear y + int (sum_list (take (m - 1) (month_lengths y))) + int d - 1"

definition Date_parse :: "string \<Rightarrow> int option" where
  "Date_parse s =
     (if length s = 10 \<and> s ! 4 = CHR ''-'' \<and> s ! 7 = CHR ''-''
      then (case (decimal_from 0 (take 4 s), decimal_from 0 (take 2 (drop 5 s)),
                  decimal_from 0 (drop 8 s)) of
              (Some y, Some m, Some d) \<Rightarrow>
                if 1 \<le> m \<and> m \<le> 12 \<and> 1 \<le> d \<and> d \<le> 31
                then Some (MakeDay (int y) m d * msPerDay) else None
            | _ \<Rightarrow> None)
      else None)"

section \<open>Sorting\<close>

text \<open>
  \<^verbatim>\<open>Array.prototype.sort(comparefn)\<close>. A comparator result \<open>NaN\<close> counts as 0. For a
  comparator that orders the elements consistently the language fixes the result: the
  stable sorted arrangement, which is what insertion from the right computes. For an
  inconsistent comparator the language leaves the order to the implementation; the model
  inserts from the right there too.
\<close>

definition SortCompare :: "('a \<Rightarrow> 'a \<Rightarrow> int option) \<Rightarrow> 'a \<Rightarrow> 'a \<Rightarrow> int" where
  "SortCompare comparefn x y = (case comparefn x y of None \<Rightarrow> 0 | Some v \<Rightarrow> v)"

fun insert_sorted :: "('a \<Rightarrow> 'a \<Rightarrow> int option) \<Rightarrow> 'a \<Rightarrow> 'a list \<Rightarrow> 'a list" where
  "insert_sorted comparefn x [] = [x]"
| "insert_sorted comparefn x (y # ys) =
     (if SortCompare comparefn x y \<le> 0 then x # y # ys
      else y # insert_sorted comparefn x ys)"

definition Array_sort :: "('a \<Rightarrow> 'a \<Rightarrow> int option) \<Rightarrow> 'a list \<Rightarrow> 'a list" where
  "Array_sort comparefn xs = foldr (insert_sorted comparefn) xs []"

text \<open>The comparator of \<^verbatim>\<open>/api/releases\<close> (lines 63-68).\<close>

definition compareReleases :: "(string \<Rightarrow> int option) \<Rightarrow> project \<Rightarrow> project \<Rightarrow> int option" where
  "compareReleases parse a b =
     (if falsy (due_date a) \<and> falsy (due_date b) then Some 0
      else if falsy (due_date a) then Some 1
      else if falsy (due_date b) then Some (- 1)
      else num_sub (Date_new parse (due_date a)) (Date_new parse (due_date b)))"

text \<open>The comparator of \<^verbatim>\<open>/api/tasks\<close> (line 125).\<close>

definition compareTasks ::
  "(string \<Rightarrow> int option) \<Rightarrow> annotated_task \<Rightarrow> annotated_task \<Rightarrow> int option" where
  "compareTasks parse a b = num_sub (Date_new parse (due_on a)) (Date_new parse (due_on b))"

section \<open>Due-soon filter and annotation\<close>

text \<open>
  The filter callback of \<^verbatim>\<open>/api/tasks\<close> (lines 89-99). \<open>today\<close> is the time value of
  \<^verbatim>\<open>new Date()\<close> taken at line 61, \<open>thirtyDaysFromNow\<close> the date of line 62.
\<close>

definition isUpcoming ::
  "(string \<Rightarrow> int option) \<Rightarrow> int \<Rightarrow> int option \<Rightarrow> 'a task_scheme \<Rightarrow> bool" where
  "isUpcoming parse today thirtyDaysFromNow t =
     (if completed t then False
      else if falsy (due_on t) then False
      else (let dueDate = Date_new parse (due_on t)
            in num_le (Some today) dueDate \<and> num_le dueDate thirtyDaysFromNow))"

definition thirtyDaysFromNow_of :: "int \<Rightarrow> int option" where
  "thirtyDaysFromNow_of today = TimeClip (today + (30 * 24 * 60 * 60 * 1000))"

text \<open>The map callback of lines 102-107.\<close>

definition annotate :: "project \<Rightarrow> task \<Rightarrow> annotated_task" where
  "annotate p t =
     task.extend t (annotated_task.fields (name p) (gid p) (due_date p))"

section \<open>Upstream, configuration and responses\<close>

text \<open>
  What \<^verbatim>\<open>await fetch(...)\<close> followed by \<^verbatim>\<open>await response.json()\<close> can give: the fetch
  rejects with an error message, or it resolves to a response with a status code and a
  status text whose body either cannot be read as \<^verbatim>\<open>{data: [...]}\<close> (reading it throws
  an error with a message) or holds the records.
\<close>

datatype 'a payload = Unreadable string | Data "'a list"

datatype 'a fetched = Rejected string | Response nat string "'a payload"

text \<open>\<^verbatim>\<open>response.ok\<close>: the status is in the range 200-299.\<close>

definition response_ok :: "nat \<Rightarrow> bool" where
  "response_ok st = (200 \<le> st \<and> st \<le> 299)"

text \<open>
  The upstream API as the handlers see it during one request: the project list of a
  workspace and the task list of a project, each for a given bearer token.
\<close>

record upstream =
  get_projects :: "string \<Rightarrow> string \<Rightarrow> project fetched"
  get_tasks :: "string \<Rightarrow> string \<Rightarrow> task fetched"

text \<open>\<^verbatim>\<open>process.env\<close>: a variable that is not set is \<open>None\<close>.\<close>

record environment =
  ASANA_TOKEN :: "string option"
  ASANA_WORKSPACE_ID :: "string option"

text \<open>
  The clock readings of one request: \<open>today\<close> is \<^verbatim>\<open>new Date()\<close> of tasks.js line 61,
  \<open>stamp\<close> the \<^verbatim>\<open>new Date()\<close> that is written into the response.
\<close>

record clock =
  today :: int
  stamp :: int

record request =
  req_method :: string

text \<open>
  The outbound effects of a handler, in the order they happen: the project fetch of a
  workspace, the task fetches of one batch (the identifiers of its projects; they are
  issued together and awaited together by \<^verbatim>\<open>Promise.all\<close>), and a pause of so many
  milliseconds. Console output is not recorded.
\<close>

datatype event = Fetch_projects string | Fetch_tasks "string list" | Pause nat

text \<open>The JSON bodies the handlers write, one constructor per shape, fields in order.\<close>

datatype body =
    No_body
  | Json_method_error string
  | Json_failure bool string int
  | Json_releases bool "project list" nat int
  | Json_tasks bool "annotated_task list" nat nat int

record response =
  status :: nat
  headers :: "(string \<times> string) list"
  body :: body

definition cors_headers :: "(string \<times> string) list" where
  "cors_headers =
     [(''Access-Control-Allow-Origin'', ''*''),
      (''Access-Control-Allow-Methods'', ''GET, OPTIONS''),
      (''Access-Control-Allow-Headers'', ''Content-Type'')]"

section \<open>The tasks handler\<close>

text \<open>
  The async callback of lines 69-113 for one project: the whole body is inside
  \<^verbatim>\<open>try\<close>, so a rejected fetch and an unreadable body end in the \<^verbatim>\<open>catch\<close> branch.
\<close>

definition projectTasks ::
  "(string \<Rightarrow> int option) \<Rightarrow> upstream \<Rightarrow> string \<Rightarrow> int \<Rightarrow> int option \<Rightarrow> project
     \<Rightarrow> annotated_task list" where
  "projectTasks parse up token today_ms thirtyDaysFromNow p =
     (case get_tasks up (gid p) token of
        Rejected msg \<Rightarrow> []
      | Response st txt tasksData \<Rightarrow>
          if \<not> response_ok st then []
          else (case tasksData of
                  Unreadable msg \<Rightarrow> []
                | Data ts \<Rightarrow>
                    map (annotate p) (filter (isUpcoming parse today_ms thirtyDaysFromNow) ts)))"

definition batchSize :: nat where
  "batchSize = 5"

text \<open>\<^verbatim>\<open>xs.slice(i, j)\<close> for \<open>0 \<le> i \<le> j\<close>.\<close>

definition slice :: "nat \<Rightarrow> nat \<Rightarrow> 'a list \<Rightarrow> 'a list" where
  "slice i j xs = take (j - i) (drop i xs)"

text \<open>
  The loop of lines 66-122, from index \<open>i\<close>, with \<open>allTasks\<close> and the effects so far as
  its state.
\<close>

function batchLoop ::
  "(project \<Rightarrow> annotated_task list) \<Rightarrow> project list \<Rightarrow> nat
     \<Rightarrow> annotated_task list \<times> event list \<Rightarrow> annotated_task list \<times> event list" where
  "batchLoop fetchOne releaseProjects i (allTasks, trace) =
     (if i < length releaseProjects then
        (let batch = slice i (i + batchSize) releaseProjects;
             batchResults = map fetchOne batch;
             allTasks' = allTasks @ concat batchResults;
             trace' = trace @ [Fetch_tasks (map gid batch)];
             trace'' = (if i + batchSize < length releaseProjects
                        then trace' @ [Pause 100] else trace')
         in batchLoop fetchOne releaseProjects (i + batchSize) (allTasks', trace''))
      else (allTasks, trace))"
  by pat_completeness auto
termination
  by (relation "measure (\<lambda>(f, ps, i, st). length ps - i)") (auto simp: batchSize_def)

text \<open>
  The \<^verbatim>\<open>try\<close> block of lines 21-136: \<open>Inl\<close> is the message of the error that reaches the
  outer \<^verbatim>\<open>catch\<close>, \<open>Inr\<close> the sorted tasks and the number of release projects.
\<close>

definition tasks_try ::
  "(string \<Rightarrow> int option) \<Rightarrow> environment \<Rightarrow> upstream \<Rightarrow> int
     \<Rightarrow> (string + annotated_task list \<times> nat) \<times> event list" where
  "tasks_try parse env up today_ms =
     (case (ASANA_TOKEN env, ASANA_WORKSPACE_ID env) of
        (Some token, Some workspace) \<Rightarrow>
          if token = [] \<or> workspace = [] then (Inl ''Missing environment variables'', [])
          else (case get_projects up workspace token of
                  Rejected msg \<Rightarrow> (Inl msg, [Fetch_projects workspace])
                | Response st txt projectsData \<Rightarrow>
                    if \<not> response_ok st
                    then (Inl (''Asana API error: '' @ show_nat st), [Fetch_projects workspace])
                    else (case projectsData of
                            Unreadable msg \<Rightarrow> (Inl msg, [Fetch_projects workspace])
                          | Data ps \<Rightarrow>
                              (let releaseProjects = filter tasks_isReleaseProject ps;
                                   thirtyDaysFromNow = thirtyDaysFromNow_of today_ms;
                                   fetchOne = projectTasks parse up token today_ms thirtyDaysFromNow;
                                   (allTasks, trace) =
                                      batchLoop fetchOne releaseProjects 0
                                        ([], [Fetch_projects workspace])
                               in (Inr (Array_sort (compareTasks parse) allTasks,
                                        length releaseProjects), trace))))
      | _ \<Rightarrow> (Inl ''Missing environment variables'', []))"

definition tasks_handler ::
  "(string \<Rightarrow> int option) \<Rightarrow> environment \<Rightarrow> upstream \<Rightarrow> clock \<Rightarrow> request
     \<Rightarrow> response \<times> event list" where
  "tasks_handler parse env up clk req =
     (if req_method req = ''OPTIONS''
      then (\<lparr>status = 200, headers = cors_headers, body = No_body\<rparr>, [])
      else if req_method req \<noteq> ''GET''
      then (\<lparr>status = 405, headers = cors_headers,
             body = Json_method_error ''Method not allowed''\<rparr>, [])
      else (case tasks_try parse env up (today clk) of
              (Inr (allTasks, n), trace) \<Rightarrow>
                (\<lparr>status = 200, headers = cors_headers,
                  body = Json_tasks True allTasks (length allTasks) n (stamp clk)\<rparr>, trace)
            | (Inl msg, trace) \<Rightarrow>
                (\<lparr>status = 500, headers = cors_headers,
                  body = Json_failure False msg (stamp clk)\<rparr>, trace)))"

section \<open>The releases handler\<close>

text \<open>The \<^verbatim>\<open>try\<close> block of lines 22-78 of \<^verbatim>\<open>/api/releases\<close>.\<close>

definition releases_try ::
  "(string \<Rightarrow> int option) \<Rightarrow> environment \<Rightarrow> upstream
     \<Rightarrow> (string + project list) \<times> event list" where
  "releases_try parse env up =
     (case (ASANA_TOKEN env, ASANA_WORKSPACE_ID env) of
        (Some token, Some workspace) \<Rightarrow>
          if token = [] \<or> workspace = [] then (Inl ''Missing environment variables'', [])
          else (case get_projects up workspace token of
                  Rejected msg \<Rightarrow> (Inl msg, [Fetch_projects workspace])
                | Response st txt projectsData \<Rightarrow>
                    if \<not> response_ok st
                    then (Inl (''Asana API error: '' @ show_nat st @ '' '' @ txt),
                          [Fetch_projects workspace])
                    else (case projectsData of
                            Unreadable msg \<Rightarrow> (Inl msg, [Fetch_projects workspace])
                          | Data ps \<Rightarrow>
                              (Inr (Array_sort (compareReleases parse)
                                      (filter releases_isReleaseProject ps)),
                               [Fetch_projects workspace])))
      | _ \<Rightarrow> (Inl ''Missing environment variables'', []))"

definition releases_handler ::
  "(string \<Rightarrow> int option) \<Rightarrow> environment \<Rightarrow> upstream \<Rightarrow> clock \<Rightarrow> request
     \<Rightarrow> response \<times> event list" where
  "releases_handler parse env up clk req =
     (if req_method req = ''OPTIONS''
      then (\<lparr>status = 200, headers = cors_headers, body = No_body\<rparr>, [])
      else if req_method req \<noteq> ''GET''
      then (\<lparr>status = 405, headers = cors_headers,
             body = Json_method_error ''Method not allowed''\<rparr>, [])
      else (case releases_try parse env up of
              (Inr releaseProjects, trace) \<Rightarrow>
                (\<lparr>status = 200, headers = cors_headers,
                  body = Json_releases True releaseProjects (length releaseProjects)
                           (stamp clk)\<rparr>, trace)
            | (Inl msg, trace) \<Rightarrow>
                (\<lparr>status = 500, headers = cors_headers,
                  body = Json_failure False msg (stamp clk)\<rparr>, trace)))"

section \<open>The batching rule in the words of the specification\<close>

text \<open>
  The list cut into consecutive chunks of \<open>n\<close> elements, the last one possibly shorter,
  and the schedule that fetches chunk after chunk with a pause of 100 ms after every
  chunk but the last.
\<close>

function spec_chunks :: "nat \<Rightarrow> 'a list \<Rightarrow> 'a list list" where
  "spec_chunks n xs =
     (if n = 0 \<or> xs = [] then [] else take n xs # spec_chunks n (drop n xs))"
  by pat_completeness auto
termination
  by (relation "measure (\<lambda>(n, xs). length xs)") auto

fun spec_schedule :: "string list list \<Rightarrow> event list" where
  "spec_schedule [] = []"
| "spec_schedule [w] = [Fetch_tasks w]"
| "spec_schedule (w # ws) = Fetch_tasks w # Pause 100 # spec_schedule ws"

section \<open>The sort orders in the words of the specification\<close>

text \<open>
  Releases: ascending by due date, a project without a due date after every project
  that has one. \<open>release_order a b\<close> says that \<open>a\<close> may stand before \<open>b\<close>.
\<close>

definition release_order :: "(string \<Rightarrow> int option) \<Rightarrow> project \<Rightarrow> project \<Rightarrow> bool" where
  "release_order parse a b =
     (if falsy (due_date a) then falsy (due_date b)
      else falsy (due_date b)
           \<or> num_le (Date_new parse (due_date a)) (Date_new parse (due_date b)))"

text \<open>Tasks: ascending by due date.\<close>

definition task_order ::
  "(string \<Rightarrow> int option) \<Rightarrow> annotated_task \<Rightarrow> annotated_task \<Rightarrow> bool" where
  "task_order parse a b = num_le (Date_new parse (due_on a)) (Date_new parse (due_on b))"

text \<open>The tasks whose due date is a valid date, and the projects whose due date, if set, is.\<close>

definition valid_due :: "(string \<Rightarrow> int option) \<Rightarrow> annotated_task set" where
  "valid_due parse = {t. Date_new parse (due_on t) \<noteq> None}"

definition valid_release :: "(string \<Rightarrow> int option) \<Rightarrow> project set" where
  "valid_release parse = {p. \<not> falsy (due_date p) \<longrightarrow> Date_new parse (due_date p) \<noteq> None}"

section \<open>Example data\<close>

text \<open>Records for the worked examples: a project and a task with the given fields.\<close>

definition mk_project :: "string \<Rightarrow> string \<Rightarrow> string option \<Rightarrow> bool \<Rightarrow> project" where
  "mk_project g n d a = \<lparr>gid = g, name = n, due_date = d, archived = a\<rparr>"

definition mk_task :: "string \<Rightarrow> string option \<Rightarrow> bool \<Rightarrow> task" where
  "mk_task g d c =
     \<lparr>task_gid = g, task_name = ''Deliver masters'', due_on = d, completed = c,
      assignee_name = None, task_created_at = ''2023-12-01T09:00:00.000Z'',
      task_notes = []\<rparr>"

definition example_env :: environment where
  "example_env = \<lparr>ASANA_TOKEN = Some ''token'', ASANA_WORKSPACE_ID = Some ''42''\<rparr>"

text \<open>An upstream that answers 200 with the given projects and the given tasks per project.\<close>

definition example_upstream :: "project list \<Rightarrow> (string \<Rightarrow> task list) \<Rightarrow> upstream" where
  "example_upstream ps ts =
     \<lparr>get_projects = (\<lambda>workspace token. Response 200 ''OK'' (Data ps)),
      get_tasks = (\<lambda>g token. Response 200 ''OK'' (Data (ts g)))\<rparr>"

text \<open>Noon UTC of 2024-01-05, and the response written half a second later.\<close>

definition example_clock :: clock where
  "example_clock = \<lparr>today = 1704456000000, stamp = 1704456000500\<rparr>"

text \<open>Noon UTC of 2024-01-01, and the response written half a second later.\<close>

definition new_year_clock :: clock where
  "new_year_clock = \<lparr>today = 1704110400000, stamp = 1704110400500\<rparr>"

text \<open>Twelve release projects, with the identifiers 1 to 12.\<close>

definition twelve_projects :: "project list" where
  "twelve_projects =
     map (\<lambda>n. mk_project (show_nat n) (''Single '' @ show_nat n) None False) [1 ..< 13]"

text \<open>
  An upstream whose project fetch answers with the given status and no readable body,
  and an upstream like \<open>example_upstream\<close> whose task fetch for the one project \<open>bad\<close>
  answers 503.
\<close>

definition failing_upstream :: "nat \<Rightarrow> string \<Rightarrow> upstream" where
  "failing_upstream st stext =
     \<lparr>get_projects = (\<lambda>workspace token. Response st stext (Unreadable ''Unexpected token'')),
      get_tasks = (\<lambda>g token. Rejected ''fetch failed'')\<rparr>"

definition flaky_upstream :: "project list \<Rightarrow> (string \<Rightarrow> task list) \<Rightarrow> string \<Rightarrow> upstream" where
  "flaky_upstream ps ts bad =
     \<lparr>get_projects = (\<lambda>workspace token. Response 200 ''OK'' (Data ps)),
      get_tasks = (\<lambda>g token. if g = bad
                     then Response 503 ''Service Unavailable'' (Unreadable ''Unexpected token'')
                     else Response 200 ''OK'' (Data (ts g)))\<rparr>"

section \<open>Failure of a task fetch\<close>

text \<open>
  The task fetch of a project fails: the fetch rejects, the status is not a success, or
  reading the body throws.
\<close>

definition task_fetch_failed :: "upstream \<Rightarrow> string \<Rightarrow> project \<Rightarrow> bool" where
  "task_fetch_failed up token p =
     (case get_tasks up (gid p) token of
        Rejected msg \<Rightarrow> True
      | Response st stext tasksData \<Rightarrow>
          \<not> response_ok st \<or> (case tasksData of Unreadable msg \<Rightarrow> True | Data ts \<Rightarrow> False))"

section \<open>Properties of the classifier\<close>

lemma some_keyword_iff:
  "some_keyword ks nm \<longleftrightarrow> (\<exists>k \<in> set ks. sublist (toLowerCase k) nm)"
  by (simp add: some_keyword_def includes_str_def list_ex_iff)

lemma some_keyword_map:
  "some_keyword ks nm = list_ex (\<lambda>k. sublist k nm) (map toLowerCase ks)"
  by (simp add: some_keyword_def includes_str_def list_ex_iff)

lemma releases_isReleaseProject_iff:
  "releases_isReleaseProject p \<longleftrightarrow>
     \<not> archived p \<and>
     (\<exists>k \<in> set releases_releaseKeywords. sublist (toLowerCase k) (toLowerCase (name p)))"
  by (simp add: releases_isReleaseProject_def some_keyword_iff)

lemma tasks_isReleaseProject_iff:
  "tasks_isReleaseProject p \<longleftrightarrow>
     (\<exists>k \<in> set tasks_releaseKeywords. sublist (toLowerCase k) (toLowerCase (name p)))"
  by (simp add: tasks_isReleaseProject_def some_keyword_iff)

lemma lower_tasks_keywords:
  "map toLowerCase tasks_releaseKeywords =
     [''release'', ''ep'', ''single'', ''album'', ''[ep'', ''[single'', ''[album'', ''[release'']"
  by code_simp

lemma lower_releases_keywords:
  "map toLowerCase releases_releaseKeywords =
     [''release'', ''ep'', ''single'', ''album'', ''[ep'', ''[single'', ''[album'', ''[release'',
      ''ep release'', ''single release'', ''album release'']"
  by code_simp

lemma sublist_via: "sublist a b \<Longrightarrow> sublist b s \<Longrightarrow> sublist a s"
  using sublist_order.order_trans by blast

lemma sublist_ext: "sublist (p @ k @ q) s \<Longrightarrow> sublist k s"
  by (rule sublist_via[of k "p @ k @ q"]) simp_all

lemma ep_variants:
  "sublist ''[ep'' s \<Longrightarrow> sublist ''ep'' s"
  "sublist ''ep release'' s \<Longrightarrow> sublist ''ep'' s"
  using sublist_ext[of "''[''" "''ep''" "[]" s] sublist_ext[of "[]" "''ep''" "'' release''" s]
  by simp_all

lemma single_variants:
  "sublist ''[single'' s \<Longrightarrow> sublist ''single'' s"
  "sublist ''single release'' s \<Longrightarrow> sublist ''single'' s"
  using sublist_ext[of "''[''" "''single''" "[]" s]
    sublist_ext[of "[]" "''single''" "'' release''" s]
  by simp_all

lemma album_variants:
  "sublist ''[album'' s \<Longrightarrow> sublist ''album'' s"
  "sublist ''album release'' s \<Longrightarrow> sublist ''album'' s"
  using sublist_ext[of "''[''" "''album''" "[]" s]
    sublist_ext[of "[]" "''album''" "'' release''" s]
  by simp_all

lemma release_variants:
  "sublist ''[release'' s \<Longrightarrow> sublist ''release'' s"
  using sublist_ext[of "''[''" "''release''" "[]" s] by simp

lemma absorb8:
  "(E' \<Longrightarrow> E) \<Longrightarrow> (S' \<Longrightarrow> S) \<Longrightarrow> (A' \<Longrightarrow> A) \<Longrightarrow> (R' \<Longrightarrow> R) \<Longrightarrow>
   (R \<or> E \<or> S \<or> A \<or> E' \<or> S' \<or> A' \<or> R') = (R \<or> E \<or> S \<or> A)"
  by blast

lemma absorb11:
  "(E' \<Longrightarrow> E) \<Longrightarrow> (S' \<Longrightarrow> S) \<Longrightarrow> (A' \<Longrightarrow> A) \<Longrightarrow> (R' \<Longrightarrow> R) \<Longrightarrow>
   (E2 \<Longrightarrow> E) \<Longrightarrow> (S2 \<Longrightarrow> S) \<Longrightarrow> (A2 \<Longrightarrow> A) \<Longrightarrow>
   (R \<or> E \<or> S \<or> A \<or> E' \<or> S' \<or> A' \<or> R' \<or> E2 \<or> S2 \<or> A2) = (R \<or> E \<or> S \<or> A)"
  by blast

text \<open>Either keyword list matches exactly the names that contain one of the four plain words.\<close>

lemma tasks_keywords_base:
  "some_keyword tasks_releaseKeywords nm \<longleftrightarrow>
     sublist ''release'' nm \<or> sublist ''ep'' nm \<or> sublist ''single'' nm \<or> sublist ''album'' nm"
proof -
  have "some_keyword tasks_releaseKeywords nm \<longleftrightarrow>
     sublist ''release'' nm \<or> sublist ''ep'' nm \<or> sublist ''single'' nm \<or> sublist ''album'' nm
     \<or> sublist ''[ep'' nm \<or> sublist ''[single'' nm \<or> sublist ''[album'' nm
     \<or> sublist ''[release'' nm"
    unfolding some_keyword_map lower_tasks_keywords by simp
  also have "\<dots> \<longleftrightarrow>
     sublist ''release'' nm \<or> sublist ''ep'' nm \<or> sublist ''single'' nm \<or> sublist ''album'' nm"
    by (rule absorb8[OF ep_variants(1) single_variants(1) album_variants(1) release_variants])
  finally show ?thesis .
qed

lemma releases_keywords_base:
  "some_keyword releases_releaseKeywords nm \<longleftrightarrow>
     sublist ''release'' nm \<or> sublist ''ep'' nm \<or> sublist ''single'' nm \<or> sublist ''album'' nm"
proof -
  have "some_keyword releases_releaseKeywords nm \<longleftrightarrow>
     sublist ''release'' nm \<or> sublist ''ep'' nm \<or> sublist ''single'' nm \<or> sublist ''album'' nm
     \<or> sublist ''[ep'' nm \<or> sublist ''[single'' nm \<or> sublist ''[album'' nm
     \<or> sublist ''[release'' nm \<or> sublist ''ep release'' nm
     \<or> sublist ''single release'' nm \<or> sublist ''album release'' nm"
    unfolding some_keyword_map lower_releases_keywords by simp
  also have "\<dots> \<longleftrightarrow>
     sublist ''release'' nm \<or> sublist ''ep'' nm \<or> sublist ''single'' nm \<or> sublist ''album'' nm"
    by (rule absorb11[OF ep_variants(1) single_variants(1) album_variants(1) release_variants
          ep_variants(2) single_variants(2) album_variants(2)])
  finally show ?thesis .
qed

text \<open>
  C9. The keyword list of the tasks handler and the longer keyword list of the releases
  handler accept the same strings: for every string, some lower-cased keyword of the one
  list occurs in it exactly when some lower-cased keyword of the other list does. Each
  bracketed or two-word keyword contains one of the four plain words, so both lists
  reduce to those.
\<close>

theorem keyword_lists_equivalent:
  "some_keyword tasks_releaseKeywords nm = some_keyword releases_releaseKeywords nm"
  by (simp only: tasks_keywords_base releases_keywords_base)

theorem keyword_lists_equivalent_witness:
  "some_keyword tasks_releaseKeywords ''epic'' \<and> some_keyword releases_releaseKeywords ''epic''
   \<and> \<not> some_keyword tasks_releaseKeywords ''pineapple''
   \<and> \<not> some_keyword releases_releaseKeywords ''pineapple''"
proof -
  have a: "some_keyword tasks_releaseKeywords ''epic''" by code_simp
  have b: "\<not> some_keyword tasks_releaseKeywords ''pineapple''" by code_simp
  show ?thesis
    using a b keyword_lists_equivalent[of "''epic''"] keyword_lists_equivalent[of "''pineapple''"]
    by simp
qed

text \<open>
  C2. The claim says that both handlers exclude archived projects. The filter of the
  tasks handler never looks at the archived flag: an archived project named
  "Old Release" is classified as a release project there, its tasks are fetched and
  returned, while the filter of the releases handler rejects the same project.
\<close>

theorem tasks_handler_keeps_archived_project:
  "tasks_isReleaseProject (mk_project ''1201'' ''Old Release'' None True)
   \<and> \<not> releases_isReleaseProject (mk_project ''1201'' ''Old Release'' None True)
   \<and> tasks_handler Date_parse example_env
        (example_upstream [mk_project ''1201'' ''Old Release'' None True]
           (\<lambda>g. [mk_task ''7'' (Some ''2024-01-20'') False]))
        example_clock \<lparr>req_method = ''GET''\<rparr>
      = (\<lparr>status = 200, headers = cors_headers,
          body = Json_tasks True
                   [annotate (mk_project ''1201'' ''Old Release'' None True)
                      (mk_task ''7'' (Some ''2024-01-20'') False)]
                   1 1 1704456000500\<rparr>,
         [Fetch_projects ''42'', Fetch_tasks [''1201'']])"
  by code_simp

section \<open>Properties of the due-soon filter\<close>

lemma isUpcoming_iff:
  "isUpcoming parse now (thirtyDaysFromNow_of now) t \<longleftrightarrow>
     \<not> completed t \<and> \<not> falsy (due_on t) \<and>
     (\<exists>d. Date_new parse (due_on t) = Some d \<and> now \<le> d \<and> d \<le> now + 2592000000
          \<and> \<bar>now + 2592000000\<bar> \<le> 8640000000000000)"
  by (auto simp: isUpcoming_def thirtyDaysFromNow_of_def TimeClip_def num_le_def Let_def
      split: option.splits)

lemma isUpcoming_due:
  "isUpcoming parse now thirty t \<Longrightarrow>
     \<not> completed t \<and> (\<exists>s d. due_on t = Some s \<and> s \<noteq> [] \<and> parse s = Some d \<and> now \<le> d)"
  by (auto simp: isUpcoming_def num_le_def Let_def falsy_def Date_new_def
      split: option.splits if_splits)

text \<open>
  C1. The claim says that a task due on the current calendar day is included. The filter
  compares the due date, read as midnight UTC of its day, with the moment of the request:
  at noon UTC of 2024-01-05 (time value 1704456000000, day 19727 since the epoch) an
  open task due on 2024-01-05 is rejected, and the handler returns no task. At the other
  end of the window the day counts: a task due on 2024-02-04, the thirtieth day after,
  is accepted.
\<close>

theorem isUpcoming_rejects_task_due_today:
  "Date_parse ''2024-01-05'' = Some (19727 * msPerDay)
   \<and> today example_clock div msPerDay = 19727
   \<and> \<not> isUpcoming Date_parse (today example_clock) (thirtyDaysFromNow_of (today example_clock))
         (mk_task ''7'' (Some ''2024-01-05'') False)
   \<and> isUpcoming Date_parse (today example_clock) (thirtyDaysFromNow_of (today example_clock))
         (mk_task ''8'' (Some ''2024-02-04'') False)
   \<and> tasks_handler Date_parse example_env
        (example_upstream [mk_project ''1201'' ''Summer EP'' None False]
           (\<lambda>g. [mk_task ''7'' (Some ''2024-01-05'') False]))
        example_clock \<lparr>req_method = ''GET''\<rparr>
      = (\<lparr>status = 200, headers = cors_headers,
          body = Json_tasks True [] 0 1 1704456000500\<rparr>,
         [Fetch_projects ''42'', Fetch_tasks [''1201'']])"
  by code_simp

section \<open>Missing configuration\<close>

lemma tasks_try_missing:
  "falsy (ASANA_TOKEN env) \<or> falsy (ASANA_WORKSPACE_ID env) \<Longrightarrow>
     tasks_try parse env up now = (Inl ''Missing environment variables'', [])"
  by (auto simp: tasks_try_def falsy_def split: option.splits)

lemma releases_try_missing:
  "falsy (ASANA_TOKEN env) \<or> falsy (ASANA_WORKSPACE_ID env) \<Longrightarrow>
     releases_try parse env up = (Inl ''Missing environment variables'', [])"
  by (auto simp: releases_try_def falsy_def split: option.splits)

lemma tasks_handler_GET:
  "req_method req = ''GET'' \<Longrightarrow>
     tasks_handler parse env up clk req =
       (case tasks_try parse env up (today clk) of
          (Inr (allTasks, n), trace) \<Rightarrow>
            (\<lparr>status = 200, headers = cors_headers,
              body = Json_tasks True allTasks (length allTasks) n (stamp clk)\<rparr>, trace)
        | (Inl msg, trace) \<Rightarrow>
            (\<lparr>status = 500, headers = cors_headers,
              body = Json_failure False msg (stamp clk)\<rparr>, trace))"
  by (simp add: tasks_handler_def)

lemma releases_handler_GET:
  "req_method req = ''GET'' \<Longrightarrow>
     releases_handler parse env up clk req =
       (case releases_try parse env up of
          (Inr releaseProjects, trace) \<Rightarrow>
            (\<lparr>status = 200, headers = cors_headers,
              body = Json_releases True releaseProjects (length releaseProjects)
                       (stamp clk)\<rparr>, trace)
        | (Inl msg, trace) \<Rightarrow>
            (\<lparr>status = 500, headers = cors_headers,
              body = Json_failure False msg (stamp clk)\<rparr>, trace))"
  by (simp add: releases_handler_def)

lemma releases_try_ok:
  assumes "ASANA_TOKEN env = Some token" "token \<noteq> []"
    and "ASANA_WORKSPACE_ID env = Some workspace" "workspace \<noteq> []"
    and "get_projects up workspace token = Response st stext (Data ps)" "response_ok st"
  shows "releases_try parse env up =
     (Inr (Array_sort (compareReleases parse) (filter releases_isReleaseProject ps)),
      [Fetch_projects workspace])"
  using assms by (simp add: releases_try_def)

text \<open>
  C7. In either handler, a GET request with the bearer token or the workspace identifier
  missing (unset or empty) is answered 500 with \<open>success: false\<close> and the message
  "Missing environment variables"; the list of outbound effects is empty, so no call to
  the upstream API is made.
\<close>

theorem missing_configuration_500:
  assumes "req_method req = ''GET''"
    and "falsy (ASANA_TOKEN env) \<or> falsy (ASANA_WORKSPACE_ID env)"
  shows "tasks_handler parse env up clk req =
           (\<lparr>status = 500, headers = cors_headers,
             body = Json_failure False ''Missing environment variables'' (stamp clk)\<rparr>, [])
         \<and> releases_handler parse env up clk req =
           (\<lparr>status = 500, headers = cors_headers,
             body = Json_failure False ''Missing environment variables'' (stamp clk)\<rparr>, [])"
  using assms
  by (simp add: tasks_handler_GET releases_handler_GET tasks_try_missing releases_try_missing)

theorem missing_configuration_500_witness:
  "tasks_handler Date_parse \<lparr>ASANA_TOKEN = Some ''token'', ASANA_WORKSPACE_ID = None\<rparr>
      (example_upstream [] (\<lambda>g. [])) example_clock \<lparr>req_method = ''GET''\<rparr> =
     (\<lparr>status = 500, headers = cors_headers,
       body = Json_failure False ''Missing environment variables'' 1704456000500\<rparr>, [])
   \<and> releases_handler Date_parse \<lparr>ASANA_TOKEN = Some ''token'', ASANA_WORKSPACE_ID = None\<rparr>
      (example_upstream [] (\<lambda>g. [])) example_clock \<lparr>req_method = ''GET''\<rparr> =
     (\<lparr>status = 500, headers = cors_headers,
       body = Json_failure False ''Missing environment variables'' 1704456000500\<rparr>, [])"
  using missing_configuration_500[of "\<lparr>req_method = ''GET''\<rparr>"
      "\<lparr>ASANA_TOKEN = Some ''token'', ASANA_WORKSPACE_ID = None\<rparr>"
      Date_parse "example_upstream [] (\<lambda>g. [])" example_clock]
  by (simp add: falsy_def example_clock_def)

section \<open>Properties of the batch loop\<close>

declare batchLoop.simps [simp del]
declare spec_chunks.simps [simp del]

lemma spec_chunks_Nil: "spec_chunks n [] = []"
  by (simp add: spec_chunks.simps)

lemma spec_chunks_step:
  "0 < n \<Longrightarrow> xs \<noteq> [] \<Longrightarrow> spec_chunks n xs = take n xs # spec_chunks n (drop n xs)"
  by (subst spec_chunks.simps) simp

lemma spec_chunks_eq_Nil: "0 < n \<Longrightarrow> spec_chunks n xs = [] \<longleftrightarrow> xs = []"
  by (subst spec_chunks.simps) simp

lemma concat_spec_chunks: "0 < n \<Longrightarrow> concat (spec_chunks n xs) = xs"
proof (induction n xs rule: spec_chunks.induct)
  case (1 n xs)
  show ?case
  proof (cases "xs = []")
    case True
    then show ?thesis by (simp add: spec_chunks_Nil)
  next
    case False
    with 1 show ?thesis by (simp add: spec_chunks_step)
  qed
qed

lemma spec_chunks_full:
  "0 < n \<Longrightarrow> c \<in> set (butlast (spec_chunks n xs)) \<Longrightarrow> length c = n"
proof (induction n xs arbitrary: c rule: spec_chunks.induct)
  case (1 n xs)
  show ?case
  proof (cases "xs = []")
    case True
    with 1(3) show ?thesis by (simp add: spec_chunks_Nil)
  next
    case False
    note ne = this
    show ?thesis
    proof (cases "drop n xs = []")
      case True
      with ne 1(2,3) show ?thesis by (simp add: spec_chunks_step spec_chunks_Nil)
    next
      case False
      then have "n < length xs" by simp
      with ne False 1 show ?thesis
        by (auto simp: spec_chunks_step[of n xs] spec_chunks_eq_Nil)
    qed
  qed
qed

lemma spec_chunks_last:
  "0 < n \<Longrightarrow> xs \<noteq> [] \<Longrightarrow>
     1 \<le> length (last (spec_chunks n xs)) \<and> length (last (spec_chunks n xs)) \<le> n"
proof (induction n xs rule: spec_chunks.induct)
  case (1 n xs)
  show ?case
  proof (cases "drop n xs = []")
    case True
    with 1(2,3) show ?thesis
      by (simp add: spec_chunks_step[of n xs] spec_chunks_Nil Suc_le_eq)
  next
    case False
    with 1 show ?thesis
      by (simp add: spec_chunks_step[of n xs] spec_chunks_eq_Nil)
  qed
qed

lemma spec_schedule_Cons:
  "spec_schedule (w # ws) = Fetch_tasks w # (if ws = [] then [] else Pause 100 # spec_schedule ws)"
  by (cases ws) simp_all

lemma batchLoop_from:
  "batchLoop fetchOne ps i (acc, tr) =
     (acc @ concat (map fetchOne (drop i ps)),
      tr @ spec_schedule (map (map gid) (spec_chunks batchSize (drop i ps))))"
proof (induction "length ps - i" arbitrary: i acc tr rule: less_induct)
  case less
  show ?case
  proof (cases "i < length ps")
    case False
    then show ?thesis by (simp add: batchLoop.simps spec_chunks_Nil)
  next
    case True
    let ?rest = "drop i ps"
    let ?batch = "take batchSize ?rest"
    let ?next = "drop (i + batchSize) ps"
    have pos: "0 < batchSize" by (simp add: batchSize_def)
    have ne: "?rest \<noteq> []" using True by simp
    have sl: "slice i (i + batchSize) ps = ?batch"
      by (simp add: slice_def)
    have dr: "drop batchSize ?rest = ?next"
      by (simp add: add.commute)
    have more: "i + batchSize < length ps \<longleftrightarrow> spec_chunks batchSize ?next \<noteq> []"
      by (auto simp: spec_chunks_eq_Nil[OF pos])
    have cc: "concat (map fetchOne ?rest) =
        concat (map fetchOne ?batch) @ concat (map fetchOne ?next)"
      unfolding dr[symmetric] by (metis append_take_drop_id concat_append map_append)
    have ch: "spec_chunks batchSize ?rest = ?batch # spec_chunks batchSize ?next"
      unfolding dr[symmetric] by (rule spec_chunks_step[OF pos ne])
    have smaller: "length ps - (i + batchSize) < length ps - i"
      using True pos by simp
    have sched: "spec_schedule (map (map gid) (spec_chunks batchSize ?rest)) =
        (if i + batchSize < length ps
         then [Fetch_tasks (map gid ?batch)] @ [Pause 100]
         else [Fetch_tasks (map gid ?batch)])
        @ spec_schedule (map (map gid) (spec_chunks batchSize ?next))"
      unfolding ch more by (simp add: spec_schedule_Cons)
    have "batchLoop fetchOne ps i (acc, tr) =
        batchLoop fetchOne ps (i + batchSize)
          (acc @ concat (map fetchOne ?batch),
           if i + batchSize < length ps
           then (tr @ [Fetch_tasks (map gid ?batch)]) @ [Pause 100]
           else tr @ [Fetch_tasks (map gid ?batch)])"
      using True by (subst batchLoop.simps) (simp add: sl Let_def)
    also have "\<dots> =
        ((acc @ concat (map fetchOne ?batch)) @ concat (map fetchOne ?next),
         (if i + batchSize < length ps
          then (tr @ [Fetch_tasks (map gid ?batch)]) @ [Pause 100]
          else tr @ [Fetch_tasks (map gid ?batch)])
         @ spec_schedule (map (map gid) (spec_chunks batchSize ?next)))"
      by (rule less.hyps[OF smaller])
    also have "\<dots> = (acc @ concat (map fetchOne ?rest),
        tr @ spec_schedule (map (map gid) (spec_chunks batchSize ?rest)))"
      unfolding sched cc by simp
    finally show ?thesis .
  qed
qed

lemma concat_map_concat:
  "concat (map f (concat xss)) = concat (map (\<lambda>c. concat (map f c)) xss)"
  by (induction xss) simp_all

lemma spec_chunks_12:
  assumes "length xs = 12"
  shows "spec_chunks 5 xs = [take 5 xs, take 5 (drop 5 xs), drop 10 xs]"
proof -
  have a: "xs \<noteq> []" "drop 5 xs \<noteq> []" "drop 10 xs \<noteq> []" using assms by auto
  have "spec_chunks 5 xs = take 5 xs # spec_chunks 5 (drop 5 xs)"
    using a(1) by (simp add: spec_chunks_step)
  also have "spec_chunks 5 (drop 5 xs) = take 5 (drop 5 xs) # spec_chunks 5 (drop 10 xs)"
    using a(2) by (simp add: spec_chunks_step)
  also have "spec_chunks 5 (drop 10 xs) = take 5 (drop 10 xs) # spec_chunks 5 (drop 15 xs)"
    using a(3) by (simp add: spec_chunks_step)
  also have "spec_chunks 5 (drop 15 xs) = []" using assms by (simp add: spec_chunks_Nil)
  also have "take 5 (drop 10 xs) = drop 10 xs" using assms by simp
  finally show ?thesis .
qed

text \<open>
  C4. Run from index 0 with nothing collected, the batch loop fetches the release
  projects in the consecutive chunks of five that the specification describes (every
  chunk but the last has five projects, the last has one to five, and together they are
  the project list), appends the results chunk by chunk, and pauses 100 ms after every
  chunk but the last. For twelve projects the chunks have 5, 5 and 2 projects and the
  effects are fetch, pause, fetch, pause, fetch. One \<open>Fetch_tasks\<close> event stands for the
  task fetches of a chunk, which are started together and awaited together.
\<close>

theorem batched_fetcher:
  "batchLoop fetchOne ps 0 ([], []) =
     (concat (map (\<lambda>c. concat (map fetchOne c)) (spec_chunks batchSize ps)),
      spec_schedule (map (map gid) (spec_chunks batchSize ps)))
   \<and> batchSize = 5
   \<and> concat (spec_chunks batchSize ps) = ps
   \<and> (\<forall>c \<in> set (butlast (spec_chunks batchSize ps)). length c = 5)
   \<and> (ps \<noteq> [] \<longrightarrow> 1 \<le> length (last (spec_chunks batchSize ps))
         \<and> length (last (spec_chunks batchSize ps)) \<le> 5)
   \<and> (length ps = 12 \<longrightarrow>
         map length (spec_chunks batchSize ps) = [5, 5, 2]
         \<and> snd (batchLoop fetchOne ps 0 ([], [])) =
             [Fetch_tasks (map gid (take 5 ps)), Pause 100,
              Fetch_tasks (map gid (take 5 (drop 5 ps))), Pause 100,
              Fetch_tasks (map gid (drop 10 ps))])"
proof -
  have pos: "0 < batchSize" by (simp add: batchSize_def)
  have cc: "concat (spec_chunks batchSize ps) = ps"
    by (rule concat_spec_chunks[OF pos])
  have "concat (map fetchOne ps) = concat (map fetchOne (concat (spec_chunks batchSize ps)))"
    by (simp only: cc)
  also have "\<dots> = concat (map (\<lambda>c. concat (map fetchOne c)) (spec_chunks batchSize ps))"
    by (rule concat_map_concat)
  finally have res: "concat (map fetchOne ps) =
      concat (map (\<lambda>c. concat (map fetchOne c)) (spec_chunks batchSize ps))" .
  have run: "batchLoop fetchOne ps 0 ([], []) =
     (concat (map (\<lambda>c. concat (map fetchOne c)) (spec_chunks batchSize ps)),
      spec_schedule (map (map gid) (spec_chunks batchSize ps)))"
    using batchLoop_from[of fetchOne ps 0 "[]" "[]"] res by simp
  have full: "\<forall>c \<in> set (butlast (spec_chunks batchSize ps)). length c = 5"
    using spec_chunks_full[OF pos, of _ ps] by (simp add: batchSize_def)
  have lst: "ps \<noteq> [] \<longrightarrow> 1 \<le> length (last (spec_chunks batchSize ps))
         \<and> length (last (spec_chunks batchSize ps)) \<le> 5"
    using spec_chunks_last[OF pos, of ps] by (simp add: batchSize_def)
  have twelve: "length ps = 12 \<longrightarrow>
         map length (spec_chunks batchSize ps) = [5, 5, 2]
         \<and> snd (batchLoop fetchOne ps 0 ([], [])) =
             [Fetch_tasks (map gid (take 5 ps)), Pause 100,
              Fetch_tasks (map gid (take 5 (drop 5 ps))), Pause 100,
              Fetch_tasks (map gid (drop 10 ps))]"
  proof
    assume l: "length ps = 12"
    have c: "spec_chunks batchSize ps = [take 5 ps, take 5 (drop 5 ps), drop 10 ps]"
      using spec_chunks_12[OF l] by (simp add: batchSize_def)
    show "map length (spec_chunks batchSize ps) = [5, 5, 2]
         \<and> snd (batchLoop fetchOne ps 0 ([], [])) =
             [Fetch_tasks (map gid (take 5 ps)), Pause 100,
              Fetch_tasks (map gid (take 5 (drop 5 ps))), Pause 100,
              Fetch_tasks (map gid (drop 10 ps))]"
      unfolding run unfolding c using l by simp
  qed
  show ?thesis using run cc full lst twelve by (simp add: batchSize_def)
qed

theorem batched_fetcher_witness:
  "length twelve_projects = 12 \<and> twelve_projects \<noteq> []
   \<and> map length (spec_chunks batchSize twelve_projects) = [5, 5, 2]
   \<and> snd (batchLoop (\<lambda>p. []) twelve_projects 0 ([], [])) =
       [Fetch_tasks [''1'', ''2'', ''3'', ''4'', ''5''], Pause 100,
        Fetch_tasks [''6'', ''7'', ''8'', ''9'', ''10''], Pause 100,
        Fetch_tasks [''11'', ''12'']]"
proof -
  have l: "length twelve_projects = 12" by code_simp
  have w1: "map gid (take 5 twelve_projects) = [''1'', ''2'', ''3'', ''4'', ''5'']" by code_simp
  have w2: "map gid (take 5 (drop 5 twelve_projects)) = [''6'', ''7'', ''8'', ''9'', ''10'']"
    by code_simp
  have w3: "map gid (drop 10 twelve_projects) = [''11'', ''12'']" by code_simp
  have ne: "twelve_projects \<noteq> []" using l by auto
  note bf = batched_fetcher[of "\<lambda>p. []" twelve_projects]
  note last = bf[THEN conjunct2, THEN conjunct2, THEN conjunct2, THEN conjunct2, THEN conjunct2]
  from last[THEN mp, OF l] show ?thesis
    unfolding w1 w2 w3 using l ne by simp
qed

section \<open>Properties of sorting\<close>

lemma set_insert_sorted: "set (insert_sorted cmp x ys) = insert x (set ys)"
  by (induction ys) auto

lemma mset_insert_sorted: "mset (insert_sorted cmp x ys) = add_mset x (mset ys)"
  by (induction ys) auto

lemma mset_Array_sort: "mset (Array_sort cmp xs) = mset xs"
  by (induction xs) (simp_all add: Array_sort_def mset_insert_sorted)

lemma set_Array_sort: "set (Array_sort cmp xs) = set xs"
  using mset_Array_sort[of cmp xs] by (rule mset_eq_setD)

lemma length_Array_sort: "length (Array_sort cmp xs) = length xs"
  using mset_Array_sort[of cmp xs] by (rule mset_eq_length)

lemma Array_sort_Cons: "Array_sort cmp (x # xs) = insert_sorted cmp x (Array_sort cmp xs)"
  by (simp add: Array_sort_def)

text \<open>
  Insertion keeps a list sorted with respect to a relation \<open>R\<close> that agrees with the
  comparator on the elements at hand and is total and transitive there.
\<close>

lemma sorted_insert_sorted:
  assumes agree: "\<forall>a \<in> A. \<forall>b \<in> A. SortCompare cmp a b \<le> 0 \<longleftrightarrow> R a b"
    and total: "\<forall>a \<in> A. \<forall>b \<in> A. R a b \<or> R b a"
    and trans: "\<forall>a \<in> A. \<forall>b \<in> A. \<forall>c \<in> A. R a b \<longrightarrow> R b c \<longrightarrow> R a c"
    and x: "x \<in> A" and ys: "set ys \<subseteq> A" and sorted: "sorted_wrt R ys"
  shows "sorted_wrt R (insert_sorted cmp x ys)"
  using ys sorted
proof (induction ys)
  case Nil
  then show ?case by simp
next
  case (Cons y ys)
  have y: "y \<in> A" and sub: "set ys \<subseteq> A" using Cons.prems(1) by auto
  have tail: "sorted_wrt R ys" and ylow: "\<forall>z \<in> set ys. R y z" using Cons.prems(2) by auto
  have cmp_xy: "SortCompare cmp x y \<le> 0 \<longleftrightarrow> R x y" using agree x y by blast
  show ?case
  proof (cases "SortCompare cmp x y \<le> 0")
    case True
    then have xy: "R x y" using cmp_xy by simp
    have "\<forall>z \<in> set ys. R x z"
    proof
      fix z assume z: "z \<in> set ys"
      then have zA: "z \<in> A" using sub by auto
      have "R y z" using ylow z by simp
      with xy show "R x z" using trans x y zA by blast
    qed
    with True xy Cons.prems(2) show ?thesis by simp
  next
    case False
    then have "\<not> R x y" using cmp_xy by simp
    then have yx: "R y x" using total x y by blast
    have "sorted_wrt R (insert_sorted cmp x ys)" using Cons.IH[OF sub tail] .
    moreover have "\<forall>z \<in> set (insert_sorted cmp x ys). R y z"
      using yx ylow by (simp add: set_insert_sorted)
    ultimately show ?thesis using False by simp
  qed
qed

lemma sorted_Array_sort:
  assumes agree: "\<forall>a \<in> A. \<forall>b \<in> A. SortCompare cmp a b \<le> 0 \<longleftrightarrow> R a b"
    and total: "\<forall>a \<in> A. \<forall>b \<in> A. R a b \<or> R b a"
    and trans: "\<forall>a \<in> A. \<forall>b \<in> A. \<forall>c \<in> A. R a b \<longrightarrow> R b c \<longrightarrow> R a c"
    and xs: "set xs \<subseteq> A"
  shows "sorted_wrt R (Array_sort cmp xs)"
  using xs
proof (induction xs)
  case Nil
  then show ?case by (simp add: Array_sort_def)
next
  case (Cons x xs)
  have x: "x \<in> A" and sub: "set xs \<subseteq> A" using Cons.prems by auto
  have s: "sorted_wrt R (Array_sort cmp xs)" using Cons.IH[OF sub] .
  have sub': "set (Array_sort cmp xs) \<subseteq> A" using sub by (simp add: set_Array_sort)
  show ?case
    unfolding Array_sort_Cons
    by (rule sorted_insert_sorted[OF agree total trans x sub' s])
qed

lemma compareTasks_agree:
  "\<forall>a \<in> valid_due parse. \<forall>b \<in> valid_due parse.
     SortCompare (compareTasks parse) a b \<le> 0 \<longleftrightarrow> task_order parse a b"
  by (auto simp: valid_due_def SortCompare_def compareTasks_def task_order_def num_sub_def
      num_le_def)

lemma task_order_total:
  "\<forall>a \<in> valid_due parse. \<forall>b \<in> valid_due parse. task_order parse a b \<or> task_order parse b a"
  by (auto simp: valid_due_def task_order_def num_le_def)

lemma task_order_trans:
  "\<forall>a \<in> valid_due parse. \<forall>b \<in> valid_due parse. \<forall>c \<in> valid_due parse.
     task_order parse a b \<longrightarrow> task_order parse b c \<longrightarrow> task_order parse a c"
  by (auto simp: valid_due_def task_order_def num_le_def)

lemma sorted_tasks:
  "set ts \<subseteq> valid_due parse \<Longrightarrow>
     sorted_wrt (task_order parse) (Array_sort (compareTasks parse) ts)"
  by (rule sorted_Array_sort[OF compareTasks_agree task_order_total task_order_trans])

lemma compareReleases_agree:
  "\<forall>a \<in> valid_release parse. \<forall>b \<in> valid_release parse.
     SortCompare (compareReleases parse) a b \<le> 0 \<longleftrightarrow> release_order parse a b"
  by (auto simp: valid_release_def SortCompare_def compareReleases_def release_order_def
      num_sub_def num_le_def)

lemma release_order_total:
  "\<forall>a \<in> valid_release parse. \<forall>b \<in> valid_release parse.
     release_order parse a b \<or> release_order parse b a"
  by (auto simp: valid_release_def release_order_def num_le_def)

lemma release_order_trans:
  "\<forall>a \<in> valid_release parse. \<forall>b \<in> valid_release parse. \<forall>c \<in> valid_release parse.
     release_order parse a b \<longrightarrow> release_order parse b c \<longrightarrow> release_order parse a c"
  by (auto simp: valid_release_def release_order_def num_le_def split: if_splits)

lemma sorted_releases:
  "set ps \<subseteq> valid_release parse \<Longrightarrow>
     sorted_wrt (release_order parse) (Array_sort (compareReleases parse) ps)"
  by (rule sorted_Array_sort[OF compareReleases_agree release_order_total release_order_trans])

lemma sort_releases_valid:
  assumes "\<forall>p \<in> set ps. \<not> falsy (due_date p) \<longrightarrow> Date_new parse (due_date p) \<noteq> None"
  shows "mset (Array_sort (compareReleases parse) ps) = mset ps
         \<and> sorted_wrt (release_order parse) (Array_sort (compareReleases parse) ps)"
proof -
  have "set ps \<subseteq> valid_release parse" using assms by (auto simp: valid_release_def)
  then have "sorted_wrt (release_order parse) (Array_sort (compareReleases parse) ps)"
    by (rule sorted_releases)
  then show ?thesis by (simp add: mset_Array_sort)
qed

lemma compareReleases_undated:
  "falsy (due_date a) \<Longrightarrow> falsy (due_date b) \<Longrightarrow> compareReleases parse a b = Some 0"
  by (simp add: compareReleases_def)

text \<open>
  C5. As stated, for every list of release projects, the claim fails: a due date that is
  set but is not a valid date makes the comparator return \<open>NaN\<close>, which the sort counts
  as 0. For the release projects with the due dates 2024-03-01, TBD, 2024-01-01 every
  comparison the sort makes involves the invalid date, so the releases handler returns
  them as they came, March before January.
\<close>

theorem releases_handler_invalid_date_unsorted:
  "releases_handler Date_parse example_env
     (example_upstream
        [mk_project ''1'' ''Spring EP'' (Some ''2024-03-01'') False,
         mk_project ''2'' ''Summer single'' (Some ''TBD'') False,
         mk_project ''3'' ''Winter single'' (Some ''2024-01-01'') False]
        (\<lambda>g. []))
     example_clock \<lparr>req_method = ''GET''\<rparr> =
     (\<lparr>status = 200, headers = cors_headers,
       body = Json_releases True
                [mk_project ''1'' ''Spring EP'' (Some ''2024-03-01'') False,
                 mk_project ''2'' ''Summer single'' (Some ''TBD'') False,
                 mk_project ''3'' ''Winter single'' (Some ''2024-01-01'') False]
                3 1704456000500\<rparr>,
      [Fetch_projects ''42''])
   \<and> \<not> release_order Date_parse
         (mk_project ''1'' ''Spring EP'' (Some ''2024-03-01'') False)
         (mk_project ''3'' ''Winter single'' (Some ''2024-01-01'') False)
   \<and> \<not> sorted_wrt (release_order Date_parse)
         [mk_project ''1'' ''Spring EP'' (Some ''2024-03-01'') False,
          mk_project ''2'' ''Summer single'' (Some ''TBD'') False,
          mk_project ''3'' ''Winter single'' (Some ''2024-01-01'') False]"
  by code_simp

text \<open>
  C5, amended. For a GET request with the configuration present and a successful
  project fetch in which every release project's due date, where set, is a valid date,
  the releases handler answers 200 with the release projects (the projects its filter
  keeps, each as often as it came) in ascending order of due date, every project
  without a due date after every project that has one; the comparator returns 0 for two
  projects without a due date. The release projects with the due dates none,
  2024-03-01, 2024-01-01 are returned as 2024-01-01, 2024-03-01, none.
\<close>

theorem releases_handler_sorted_by_due_date:
  assumes get: "req_method req = ''GET''"
    and cfg: "ASANA_TOKEN env = Some token" "token \<noteq> []"
             "ASANA_WORKSPACE_ID env = Some workspace" "workspace \<noteq> []"
    and fetch: "get_projects up workspace token = Response st stext (Data ps)" "response_ok st"
    and valid: "\<forall>p \<in> set ps. releases_isReleaseProject p \<and> \<not> falsy (due_date p)
                  \<longrightarrow> Date_new parse (due_date p) \<noteq> None"
  shows "\<exists>rs. releases_handler parse env up clk req =
                 (\<lparr>status = 200, headers = cors_headers,
                   body = Json_releases True rs (length rs) (stamp clk)\<rparr>,
                  [Fetch_projects workspace])
              \<and> mset rs = mset (filter releases_isReleaseProject ps)
              \<and> sorted_wrt (release_order parse) rs
              \<and> (\<forall>a b. falsy (due_date a) \<and> falsy (due_date b)
                    \<longrightarrow> compareReleases parse a b = Some 0)"
proof -
  let ?rps = "filter releases_isReleaseProject ps"
  let ?rs = "Array_sort (compareReleases parse) ?rps"
  have run: "releases_handler parse env up clk req =
      (\<lparr>status = 200, headers = cors_headers,
        body = Json_releases True ?rs (length ?rs) (stamp clk)\<rparr>,
       [Fetch_projects workspace])"
    using releases_try_ok[OF cfg fetch, of parse] get by (simp add: releases_handler_GET)
  have v: "\<forall>p \<in> set ?rps. \<not> falsy (due_date p) \<longrightarrow> Date_new parse (due_date p) \<noteq> None"
    using valid by simp
  note s = sort_releases_valid[OF v]
  have u: "\<forall>a b. falsy (due_date a) \<and> falsy (due_date b)
             \<longrightarrow> compareReleases parse a b = Some 0"
    by (simp add: compareReleases_undated)
  from run s u show ?thesis by blast
qed

theorem releases_handler_sorted_by_due_date_witness:
  "releases_handler Date_parse example_env
     (example_upstream
        [mk_project ''1'' ''Untitled album'' None False,
         mk_project ''2'' ''Spring EP'' (Some ''2024-03-01'') False,
         mk_project ''3'' ''Winter single'' (Some ''2024-01-01'') False]
        (\<lambda>g. []))
     example_clock \<lparr>req_method = ''GET''\<rparr> =
     (\<lparr>status = 200, headers = cors_headers,
       body = Json_releases True
                [mk_project ''3'' ''Winter single'' (Some ''2024-01-01'') False,
                 mk_project ''2'' ''Spring EP'' (Some ''2024-03-01'') False,
                 mk_project ''1'' ''Untitled album'' None False]
                3 1704456000500\<rparr>,
      [Fetch_projects ''42''])
   \<and> sorted_wrt (release_order Date_parse)
        [mk_project ''3'' ''Winter single'' (Some ''2024-01-01'') False,
         mk_project ''2'' ''Spring EP'' (Some ''2024-03-01'') False,
         mk_project ''1'' ''Untitled album'' None False]"
proof -
  let ?ps = "[mk_project ''1'' ''Untitled album'' None False,
      mk_project ''2'' ''Spring EP'' (Some ''2024-03-01'') False,
      mk_project ''3'' ''Winter single'' (Some ''2024-01-01'') False]"
  let ?out = "[mk_project ''3'' ''Winter single'' (Some ''2024-01-01'') False,
      mk_project ''2'' ''Spring EP'' (Some ''2024-03-01'') False,
      mk_project ''1'' ''Untitled album'' None False]"
  let ?up = "example_upstream ?ps (\<lambda>g. [])"
  let ?req = "\<lparr>req_method = ''GET''\<rparr>"
  have g: "req_method ?req = ''GET''" by simp
  have c1: "ASANA_TOKEN example_env = Some ''token''" by (simp add: example_env_def)
  have c2: "''token'' \<noteq> []" by simp
  have c3: "ASANA_WORKSPACE_ID example_env = Some ''42''" by (simp add: example_env_def)
  have c4: "''42'' \<noteq> []" by simp
  have f: "get_projects ?up ''42'' ''token'' = Response 200 ''OK'' (Data ?ps)"
    by (simp add: example_upstream_def)
  have ok: "response_ok 200" by (simp add: response_ok_def)
  have v: "\<forall>p \<in> set ?ps. releases_isReleaseProject p \<and> \<not> falsy (due_date p)
             \<longrightarrow> Date_new Date_parse (due_date p) \<noteq> None"
    by code_simp
  have run: "releases_handler Date_parse example_env ?up example_clock ?req =
     (\<lparr>status = 200, headers = cors_headers,
       body = Json_releases True ?out 3 1704456000500\<rparr>, [Fetch_projects ''42''])"
    by code_simp
  from releases_handler_sorted_by_due_date[OF g c1 c2 c3 c4 f ok v, of example_clock]
  obtain rs where
    r: "releases_handler Date_parse example_env ?up example_clock ?req =
          (\<lparr>status = 200, headers = cors_headers,
            body = Json_releases True rs (length rs) (stamp example_clock)\<rparr>,
           [Fetch_projects ''42''])"
    and s: "sorted_wrt (release_order Date_parse) rs"
    by blast
  from r run have "rs = ?out" by simp
  with s have "sorted_wrt (release_order Date_parse) ?out" by simp
  with run show ?thesis by (rule conjI)
qed

section \<open>Properties of the tasks handler\<close>

lemma annotate_task_fields:
  "task_gid (annotate p t) = task_gid t" "task_name (annotate p t) = task_name t"
  "due_on (annotate p t) = due_on t" "completed (annotate p t) = completed t"
  "assignee_name (annotate p t) = assignee_name t"
  "task_created_at (annotate p t) = task_created_at t"
  "task_notes (annotate p t) = task_notes t"
  by (simp_all add: annotate_def task.defs annotated_task.defs)

lemma annotate_project_fields:
  "project_name (annotate p t) = name p" "project_gid (annotate p t) = gid p"
  "project_due_date (annotate p t) = due_date p"
  by (simp_all add: annotate_def task.defs annotated_task.defs)

lemma truncate_annotate: "task.truncate (annotate p t) = t"
  by (simp add: annotate_def task.defs annotated_task.defs)

lemma isUpcoming_annotate:
  "isUpcoming parse now thirty (annotate p t) = isUpcoming parse now thirty t"
  by (simp add: isUpcoming_def annotate_task_fields)

lemma projectTasks_ok:
  "get_tasks up (gid p) token = Response st txt (Data ts) \<Longrightarrow> response_ok st \<Longrightarrow>
     projectTasks parse up token now thirty p =
       map (annotate p) (filter (isUpcoming parse now thirty) ts)"
  by (simp add: projectTasks_def)

text \<open>A task fetch fails: the fetch rejects, the status is not a success, or the body is unreadable.\<close>

lemma projectTasks_rejected:
  "get_tasks up (gid p) token = Rejected msg \<Longrightarrow> projectTasks parse up token now thirty p = []"
  by (simp add: projectTasks_def)

lemma projectTasks_not_ok:
  "get_tasks up (gid p) token = Response st txt tasksData \<Longrightarrow> \<not> response_ok st \<Longrightarrow>
     projectTasks parse up token now thirty p = []"
  by (simp add: projectTasks_def)

lemma projectTasks_unreadable:
  "get_tasks up (gid p) token = Response st txt (Unreadable msg) \<Longrightarrow>
     projectTasks parse up token now thirty p = []"
  by (simp add: projectTasks_def)

lemma projectTasks_member:
  assumes "a \<in> set (projectTasks parse up token now thirty p)"
  shows "\<exists>t. a = annotate p t \<and> isUpcoming parse now thirty t"
proof (cases "get_tasks up (gid p) token")
  case (Rejected msg)
  with assms show ?thesis by (simp add: projectTasks_def)
next
  case (Response st stext tasksData)
  show ?thesis
  proof (cases tasksData)
    case (Unreadable msg)
    with Response assms show ?thesis by (auto simp: projectTasks_def split: if_splits)
  next
    case (Data ts)
    with Response assms show ?thesis
      by (cases "response_ok st") (auto simp: projectTasks_def)
  qed
qed

lemma tasks_try_ok:
  assumes "ASANA_TOKEN env = Some token" "token \<noteq> []"
    and "ASANA_WORKSPACE_ID env = Some workspace" "workspace \<noteq> []"
    and "get_projects up workspace token = Response st txt (Data ps)" "response_ok st"
  shows "tasks_try parse env up now =
     (Inr (Array_sort (compareTasks parse)
             (concat (map (projectTasks parse up token now (thirtyDaysFromNow_of now))
                        (filter tasks_isReleaseProject ps))),
           length (filter tasks_isReleaseProject ps)),
      Fetch_projects workspace #
        spec_schedule (map (map gid) (spec_chunks batchSize (filter tasks_isReleaseProject ps))))"
  using assms by (simp add: tasks_try_def batchLoop_from Let_def)

lemma tasks_try_Inr:
  assumes "tasks_try parse env up now = (Inr (ts, n), tr)"
  shows "\<exists>token workspace st txt ps.
           ASANA_TOKEN env = Some token \<and> token \<noteq> [] \<and>
           ASANA_WORKSPACE_ID env = Some workspace \<and> workspace \<noteq> [] \<and>
           get_projects up workspace token = Response st txt (Data ps) \<and> response_ok st"
  using assms
  by (auto simp: tasks_try_def Let_def
      split: option.splits fetched.splits payload.splits if_splits prod.splits)

lemma concat_projectTasks_due:
  assumes "a \<in> set (concat (map (projectTasks parse up token now thirty) ps))"
  shows "\<not> completed a \<and>
         (\<exists>s d. due_on a = Some s \<and> s \<noteq> [] \<and> parse s = Some d \<and> now \<le> d)"
proof -
  from assms obtain p where "a \<in> set (projectTasks parse up token now thirty p)" by auto
  then obtain t where a: "a = annotate p t" and up: "isUpcoming parse now thirty t"
    using projectTasks_member by blast
  from isUpcoming_due[OF up] show ?thesis by (simp add: a annotate_task_fields)
qed

lemma concat_projectTasks_valid:
  "set (concat (map (projectTasks parse up token now thirty) ps)) \<subseteq> valid_due parse"
proof
  fix a assume "a \<in> set (concat (map (projectTasks parse up token now thirty) ps))"
  from concat_projectTasks_due[OF this] show "a \<in> valid_due parse"
    by (auto simp: valid_due_def Date_new_def)
qed

lemma concat_map_filter_empty:
  "(\<And>p. \<not> P p \<Longrightarrow> f p = []) \<Longrightarrow> concat (map f (filter P ps)) = concat (map f ps)"
  by (induction ps) simp_all

lemma task_fetch_failed_empty:
  "task_fetch_failed up token p \<Longrightarrow> projectTasks parse up token now thirty p = []"
  by (auto simp: task_fetch_failed_def projectTasks_def split: fetched.splits payload.splits)

lemma task_fetch_ok:
  "\<not> task_fetch_failed up token p \<Longrightarrow>
     \<exists>st stext ts. get_tasks up (gid p) token = Response st stext (Data ts) \<and> response_ok st"
  by (auto simp: task_fetch_failed_def split: fetched.splits payload.splits)

lemma tasks_try_project_error:
  assumes "ASANA_TOKEN env = Some token" "token \<noteq> []"
    and "ASANA_WORKSPACE_ID env = Some workspace" "workspace \<noteq> []"
    and "get_projects up workspace token = Response st stext projectsData" "\<not> response_ok st"
  shows "tasks_try parse env up now =
     (Inl (''Asana API error: '' @ show_nat st), [Fetch_projects workspace])"
  using assms by (simp add: tasks_try_def)

text \<open>
  C6. Whenever the tasks handler answers with a task list, every task in it (these are
  the tasks that reached the final sort, which only permutes them) has a due date that
  is set, not empty and a valid date, so the comparator never subtracts a null or an
  invalid date; and the list is in ascending order of due date.
\<close>

theorem tasks_sorted_with_due_dates:
  assumes "tasks_handler parse env up clk req = (res, tr)"
    and "body res = Json_tasks ok ts c n st"
  shows "(\<forall>t \<in> set ts. due_on t \<noteq> None \<and> \<not> falsy (due_on t)
            \<and> Date_new parse (due_on t) \<noteq> None)
         \<and> sorted_wrt (task_order parse) ts"
proof -
  have get: "req_method req = ''GET''"
    using assms by (auto simp: tasks_handler_def split: if_splits)
  obtain r tr' where run: "tasks_try parse env up (today clk) = (r, tr')"
    by (cases "tasks_try parse env up (today clk)")
  have "r = Inr (ts, n)"
    using assms get run by (auto simp: tasks_handler_def split: sum.splits)
  with run have t: "tasks_try parse env up (today clk) = (Inr (ts, n), tr')" by simp
  from tasks_try_Inr[OF t] obtain token workspace st' stext ps where
    cfg: "ASANA_TOKEN env = Some token" "token \<noteq> []"
         "ASANA_WORKSPACE_ID env = Some workspace" "workspace \<noteq> []"
         "get_projects up workspace token = Response st' stext (Data ps)" "response_ok st'"
    by blast
  let ?all = "concat (map (projectTasks parse up token (today clk)
                 (thirtyDaysFromNow_of (today clk))) (filter tasks_isReleaseProject ps))"
  have ts: "ts = Array_sort (compareTasks parse) ?all"
    using t tasks_try_ok[OF cfg, of parse "today clk"] by simp
  have valid: "set ?all \<subseteq> valid_due parse" by (rule concat_projectTasks_valid)
  have sorted: "sorted_wrt (task_order parse) ts"
    unfolding ts by (rule sorted_tasks[OF valid])
  have "\<forall>t \<in> set ts. due_on t \<noteq> None \<and> \<not> falsy (due_on t)
            \<and> Date_new parse (due_on t) \<noteq> None"
  proof
    fix t assume "t \<in> set ts"
    then have "t \<in> set ?all" unfolding ts by (simp add: set_Array_sort)
    from concat_projectTasks_due[OF this]
    show "due_on t \<noteq> None \<and> \<not> falsy (due_on t) \<and> Date_new parse (due_on t) \<noteq> None"
      by (auto simp: falsy_def Date_new_def)
  qed
  with sorted show ?thesis by simp
qed

theorem tasks_sorted_with_due_dates_witness:
  "tasks_handler Date_parse example_env
     (example_upstream [mk_project ''1'' ''Summer EP'' None False]
        (\<lambda>g. [mk_task ''11'' (Some ''2024-01-05'') False, mk_task ''12'' (Some ''2024-01-02'') False]))
     new_year_clock \<lparr>req_method = ''GET''\<rparr> =
     (\<lparr>status = 200, headers = cors_headers,
       body = Json_tasks True
                [annotate (mk_project ''1'' ''Summer EP'' None False)
                   (mk_task ''12'' (Some ''2024-01-02'') False),
                 annotate (mk_project ''1'' ''Summer EP'' None False)
                   (mk_task ''11'' (Some ''2024-01-05'') False)]
                2 1 1704110400500\<rparr>,
      [Fetch_projects ''42'', Fetch_tasks [''1'']])
   \<and> sorted_wrt (task_order Date_parse)
        [annotate (mk_project ''1'' ''Summer EP'' None False)
           (mk_task ''12'' (Some ''2024-01-02'') False),
         annotate (mk_project ''1'' ''Summer EP'' None False)
           (mk_task ''11'' (Some ''2024-01-05'') False)]"
proof -
  let ?a2 = "annotate (mk_project ''1'' ''Summer EP'' None False)
               (mk_task ''12'' (Some ''2024-01-02'') False)"
  let ?a5 = "annotate (mk_project ''1'' ''Summer EP'' None False)
               (mk_task ''11'' (Some ''2024-01-05'') False)"
  let ?res = "\<lparr>status = 200, headers = cors_headers,
       body = Json_tasks True [?a2, ?a5] 2 1 1704110400500\<rparr>"
  have run: "tasks_handler Date_parse example_env
     (example_upstream [mk_project ''1'' ''Summer EP'' None False]
        (\<lambda>g. [mk_task ''11'' (Some ''2024-01-05'') False, mk_task ''12'' (Some ''2024-01-02'') False]))
     new_year_clock \<lparr>req_method = ''GET''\<rparr> = (?res, [Fetch_projects ''42'', Fetch_tasks [''1'']])"
    by code_simp
  have b: "body ?res = Json_tasks True [?a2, ?a5] 2 1 1704110400500" by simp
  from tasks_sorted_with_due_dates[OF run b] have "sorted_wrt (task_order Date_parse) [?a2, ?a5]"
    by (rule conjunct2)
  with run show ?thesis by (rule conjI)
qed

text \<open>
  C3. For a GET request with the configuration present: if the project fetch answers
  with a status outside 200-299, the response is 500 with \<open>success: false\<close>; if it
  succeeds, the response is 200 whatever the task fetches do, and its task list holds
  exactly the upcoming tasks of the release projects whose task fetch did not fail. A
  project whose task fetch fails (rejected fetch, non-success status or unreadable
  body) contributes the empty list.
\<close>

theorem task_fetch_failure_is_local:
  assumes get: "req_method req = ''GET''"
    and cfg: "ASANA_TOKEN env = Some token" "token \<noteq> []"
             "ASANA_WORKSPACE_ID env = Some workspace" "workspace \<noteq> []"
  shows "(\<forall>st stext projectsData.
            get_projects up workspace token = Response st stext projectsData \<and> \<not> response_ok st
            \<longrightarrow> fst (tasks_handler parse env up clk req) =
                  \<lparr>status = 500, headers = cors_headers,
                   body = Json_failure False (''Asana API error: '' @ show_nat st) (stamp clk)\<rparr>)
       \<and> (\<forall>st stext ps.
            get_projects up workspace token = Response st stext (Data ps) \<and> response_ok st
            \<longrightarrow> (\<exists>ts. fst (tasks_handler parse env up clk req) =
                        \<lparr>status = 200, headers = cors_headers,
                         body = Json_tasks True ts (length ts)
                                  (length (filter tasks_isReleaseProject ps)) (stamp clk)\<rparr>
                      \<and> mset ts =
                          mset (concat (map (projectTasks parse up token (today clk)
                                               (thirtyDaysFromNow_of (today clk)))
                                  (filter (\<lambda>p. \<not> task_fetch_failed up token p)
                                     (filter tasks_isReleaseProject ps))))))
       \<and> (\<forall>p. task_fetch_failed up token p \<longrightarrow>
              projectTasks parse up token (today clk) (thirtyDaysFromNow_of (today clk)) p = [])"
proof (intro conjI allI impI)
  fix st stext projectsData
  assume "get_projects up workspace token = Response st stext projectsData \<and> \<not> response_ok st"
  then show "fst (tasks_handler parse env up clk req) =
      \<lparr>status = 500, headers = cors_headers,
       body = Json_failure False (''Asana API error: '' @ show_nat st) (stamp clk)\<rparr>"
    using tasks_try_project_error[OF cfg, of up st stext projectsData parse "today clk"] get
    by (simp add: tasks_handler_GET)
next
  fix st stext ps
  assume a: "get_projects up workspace token = Response st stext (Data ps) \<and> response_ok st"
  let ?f = "projectTasks parse up token (today clk) (thirtyDaysFromNow_of (today clk))"
  let ?rps = "filter tasks_isReleaseProject ps"
  let ?ts = "Array_sort (compareTasks parse) (concat (map ?f ?rps))"
  have run: "fst (tasks_handler parse env up clk req) =
      \<lparr>status = 200, headers = cors_headers,
       body = Json_tasks True ?ts (length ?ts) (length ?rps) (stamp clk)\<rparr>"
    using tasks_try_ok[OF cfg, of up st stext ps parse "today clk"] a get
    by (simp add: tasks_handler_GET)
  have "concat (map ?f (filter (\<lambda>p. \<not> task_fetch_failed up token p) ?rps)) = concat (map ?f ?rps)"
    by (rule concat_map_filter_empty) (simp add: task_fetch_failed_empty)
  then have "mset ?ts = mset (concat (map ?f (filter (\<lambda>p. \<not> task_fetch_failed up token p) ?rps)))"
    by (simp add: mset_Array_sort)
  with run show "\<exists>ts. fst (tasks_handler parse env up clk req) =
                        \<lparr>status = 200, headers = cors_headers,
                         body = Json_tasks True ts (length ts)
                                  (length (filter tasks_isReleaseProject ps)) (stamp clk)\<rparr>
                      \<and> mset ts =
                          mset (concat (map (projectTasks parse up token (today clk)
                                               (thirtyDaysFromNow_of (today clk)))
                                  (filter (\<lambda>p. \<not> task_fetch_failed up token p)
                                     (filter tasks_isReleaseProject ps))))"
    by blast
next
  fix p assume "task_fetch_failed up token p"
  then show "projectTasks parse up token (today clk) (thirtyDaysFromNow_of (today clk)) p = []"
    by (rule task_fetch_failed_empty)
qed

theorem task_fetch_failure_is_local_witness:
  "fst (tasks_handler Date_parse example_env (failing_upstream 401 ''Unauthorized'')
          new_year_clock \<lparr>req_method = ''GET''\<rparr>) =
     \<lparr>status = 500, headers = cors_headers,
      body = Json_failure False ''Asana API error: 401'' (stamp new_year_clock)\<rparr>
   \<and> (\<exists>ts. fst (tasks_handler Date_parse example_env
                 (flaky_upstream
                    [mk_project ''1'' ''Summer EP'' None False,
                     mk_project ''2'' ''Winter Single'' (Some ''2024-02-01'') False]
                    (\<lambda>g. [mk_task (g @ ''1'') (Some ''2024-01-05'') False])
                    ''2'')
                 new_year_clock \<lparr>req_method = ''GET''\<rparr>) =
          \<lparr>status = 200, headers = cors_headers,
           body = Json_tasks True ts (length ts) 2 (stamp new_year_clock)\<rparr>
        \<and> mset ts =
            mset [annotate (mk_project ''1'' ''Summer EP'' None False)
                    (mk_task ''11'' (Some ''2024-01-05'') False)])"
proof -
  let ?req = "\<lparr>req_method = ''GET''\<rparr>"
  let ?ps = "[mk_project ''1'' ''Summer EP'' None False,
              mk_project ''2'' ''Winter Single'' (Some ''2024-02-01'') False]"
  let ?up1 = "failing_upstream 401 ''Unauthorized''"
  let ?up2 = "flaky_upstream ?ps (\<lambda>g. [mk_task (g @ ''1'') (Some ''2024-01-05'') False]) ''2''"
  have g: "req_method ?req = ''GET''" by simp
  have c1: "ASANA_TOKEN example_env = Some ''token''" by (simp add: example_env_def)
  have c2: "''token'' \<noteq> []" by simp
  have c3: "ASANA_WORKSPACE_ID example_env = Some ''42''" by (simp add: example_env_def)
  have c4: "''42'' \<noteq> []" by simp
  have h1: "get_projects ?up1 ''42'' ''token'' = Response 401 ''Unauthorized''
              (Unreadable ''Unexpected token'') \<and> \<not> response_ok 401"
    by (simp add: failing_upstream_def response_ok_def)
  have h2: "get_projects ?up2 ''42'' ''token'' = Response 200 ''OK'' (Data ?ps) \<and> response_ok 200"
    by (simp add: flaky_upstream_def response_ok_def)
  have s401: "show_nat 401 = ''401''" by code_simp
  have n: "length (filter tasks_isReleaseProject ?ps) = 2" by code_simp
  have e: "concat (map (projectTasks Date_parse ?up2 ''token'' (today new_year_clock)
                          (thirtyDaysFromNow_of (today new_year_clock)))
             (filter (\<lambda>p. \<not> task_fetch_failed ?up2 ''token'' p)
                (filter tasks_isReleaseProject ?ps))) =
           [annotate (mk_project ''1'' ''Summer EP'' None False)
              (mk_task ''11'' (Some ''2024-01-05'') False)]"
    by code_simp
  note T1 = task_fetch_failure_is_local[OF g c1 c2 c3 c4, of ?up1 Date_parse new_year_clock]
  note T2 = task_fetch_failure_is_local[OF g c1 c2 c3 c4, of ?up2 Date_parse new_year_clock]
  have a: "fst (tasks_handler Date_parse example_env ?up1 new_year_clock ?req) =
     \<lparr>status = 500, headers = cors_headers,
      body = Json_failure False ''Asana API error: 401'' (stamp new_year_clock)\<rparr>"
    using T1[THEN conjunct1, THEN spec, THEN spec, THEN spec, THEN mp, OF h1] s401 by simp
  have b: "\<exists>ts. fst (tasks_handler Date_parse example_env ?up2 new_year_clock ?req) =
          \<lparr>status = 200, headers = cors_headers,
           body = Json_tasks True ts (length ts) 2 (stamp new_year_clock)\<rparr>
        \<and> mset ts =
            mset [annotate (mk_project ''1'' ''Summer EP'' None False)
                    (mk_task ''11'' (Some ''2024-01-05'') False)]"
    using T2[THEN conjunct2, THEN conjunct1, THEN spec, THEN spec, THEN spec, THEN mp, OF h2]
    unfolding n e .
  from a b show ?thesis by (rule conjI)
qed

section \<open>Properties of the annotation step\<close>

text \<open>
  C10. The annotated task is the task extended by exactly the three fields
  \<open>project_name\<close>, \<open>project_gid\<close> and \<open>project_due_date\<close>, taken from the owning
  project: cutting the three fields off gives the original task back. For a project
  whose task fetch succeeds, the tasks that come out of the annotation step are, with
  the three fields cut off, the tasks that passed the due-soon filter, in their order.
\<close>

theorem annotation_keeps_task_fields:
  "task.truncate (annotate p t) = t
   \<and> project_name (annotate p t) = name p
   \<and> project_gid (annotate p t) = gid p
   \<and> project_due_date (annotate p t) = due_date p
   \<and> (get_tasks up (gid p) token = Response st stext (Data ts) \<and> response_ok st \<longrightarrow>
        map task.truncate (projectTasks parse up token now thirty p) =
          filter (isUpcoming parse now thirty) ts
        \<and> (\<forall>a \<in> set (projectTasks parse up token now thirty p).
              project_name a = name p \<and> project_gid a = gid p
              \<and> project_due_date a = due_date p))"
proof -
  have "map task.truncate (map (annotate p) xs) = xs" for xs
    by (induction xs) (simp_all add: truncate_annotate)
  then show ?thesis
    by (auto simp: truncate_annotate annotate_project_fields projectTasks_ok)
qed

theorem annotation_keeps_task_fields_witness:
  "map task.truncate
     (projectTasks Date_parse
        (example_upstream [] (\<lambda>g. [mk_task ''11'' (Some ''2024-01-05'') False,
                                   mk_task ''12'' (Some ''2023-12-24'') False]))
        ''token'' (today new_year_clock) (thirtyDaysFromNow_of (today new_year_clock))
        (mk_project ''1'' ''Summer EP'' (Some ''2024-06-01'') False))
   = [mk_task ''11'' (Some ''2024-01-05'') False]
   \<and> map (\<lambda>a. (project_name a, project_gid a, project_due_date a))
       (projectTasks Date_parse
          (example_upstream [] (\<lambda>g. [mk_task ''11'' (Some ''2024-01-05'') False,
                                     mk_task ''12'' (Some ''2023-12-24'') False]))
          ''token'' (today new_year_clock) (thirtyDaysFromNow_of (today new_year_clock))
          (mk_project ''1'' ''Summer EP'' (Some ''2024-06-01'') False))
     = [(''Summer EP'', ''1'', Some ''2024-06-01'')]"
proof -
  let ?ts = "[mk_task ''11'' (Some ''2024-01-05'') False, mk_task ''12'' (Some ''2023-12-24'') False]"
  let ?up = "example_upstream [] (\<lambda>g. ?ts)"
  let ?p = "mk_project ''1'' ''Summer EP'' (Some ''2024-06-01'') False"
  let ?out = "projectTasks Date_parse ?up ''token'' (today new_year_clock)
                (thirtyDaysFromNow_of (today new_year_clock)) ?p"
  have h: "get_tasks ?up (gid ?p) ''token'' = Response 200 ''OK'' (Data ?ts) \<and> response_ok 200"
    by (simp add: example_upstream_def response_ok_def)
  have f: "filter (isUpcoming Date_parse (today new_year_clock)
              (thirtyDaysFromNow_of (today new_year_clock))) ?ts
           = [mk_task ''11'' (Some ''2024-01-05'') False]"
    by code_simp
  have p: "name ?p = ''Summer EP''" "gid ?p = ''1''" "due_date ?p = Some ''2024-06-01''"
    by (simp_all add: mk_project_def)
  note A = annotation_keeps_task_fields[of ?p "mk_task ''11'' None False" ?up "''token''"
      200 "''OK''" ?ts Date_parse "today new_year_clock"
      "thirtyDaysFromNow_of (today new_year_clock)"]
  note B = A[THEN conjunct2, THEN conjunct2, THEN conjunct2, THEN conjunct2, THEN mp, OF h]
  have trunc: "map task.truncate ?out = [mk_task ''11'' (Some ''2024-01-05'') False]"
    using B[THEN conjunct1] unfolding f .
  then obtain a where out: "?out = [a]" by auto
  have "project_name a = ''Summer EP'' \<and> project_gid a = ''1''
        \<and> project_due_date a = Some ''2024-06-01''"
    using B[THEN conjunct2] unfolding p out by simp
  with trunc show ?thesis unfolding out by simp
qed

section \<open>Method dispatch\<close>

lemma tasks_try_fetches_projects:
  assumes "ASANA_TOKEN env = Some token" "token \<noteq> []"
    and "ASANA_WORKSPACE_ID env = Some workspace" "workspace \<noteq> []"
  shows "\<exists>rest. snd (tasks_try parse env up now) = Fetch_projects workspace # rest"
proof (cases "get_projects up workspace token")
  case (Rejected msg)
  with assms show ?thesis by (simp add: tasks_try_def)
next
  case (Response st stext projectsData)
  show ?thesis
  proof (cases "response_ok st")
    case False
    with Response assms show ?thesis by (simp add: tasks_try_def)
  next
    case True
    show ?thesis
    proof (cases projectsData)
      case (Unreadable msg)
      with True Response assms show ?thesis by (simp add: tasks_try_def)
    next
      case (Data ps)
      with True Response tasks_try_ok[OF assms, of up st stext ps parse now]
      show ?thesis by simp
    qed
  qed
qed

lemma releases_try_fetches_projects:
  assumes "ASANA_TOKEN env = Some token" "token \<noteq> []"
    and "ASANA_WORKSPACE_ID env = Some workspace" "workspace \<noteq> []"
  shows "snd (releases_try parse env up) = [Fetch_projects workspace]"
  using assms
  by (cases "get_projects up workspace token")
     (auto simp: releases_try_def split: payload.splits)

text \<open>
  C8. In either handler the method decides first, after the three CORS headers that
  every response carries: OPTIONS is answered 200 without a body, any method other than
  GET and OPTIONS is answered 405, and in both cases the answer does not depend on the
  configuration or the upstream and no outbound effect happens. Only a GET request gets
  further: it is answered 200 or 500, with no outbound effect when the configuration is
  missing, and with the project fetch as the first outbound effect otherwise.
\<close>

theorem method_dispatch:
  "(req_method req = ''OPTIONS'' \<longrightarrow>
      tasks_handler parse env up clk req =
        (\<lparr>status = 200, headers = cors_headers, body = No_body\<rparr>, [])
      \<and> releases_handler parse env up clk req =
        (\<lparr>status = 200, headers = cors_headers, body = No_body\<rparr>, []))
   \<and> (req_method req \<noteq> ''OPTIONS'' \<and> req_method req \<noteq> ''GET'' \<longrightarrow>
      tasks_handler parse env up clk req =
        (\<lparr>status = 405, headers = cors_headers,
          body = Json_method_error ''Method not allowed''\<rparr>, [])
      \<and> releases_handler parse env up clk req =
        (\<lparr>status = 405, headers = cors_headers,
          body = Json_method_error ''Method not allowed''\<rparr>, []))
   \<and> (req_method req = ''GET'' \<longrightarrow>
      status (fst (tasks_handler parse env up clk req)) \<in> {200, 500}
      \<and> status (fst (releases_handler parse env up clk req)) \<in> {200, 500}
      \<and> (falsy (ASANA_TOKEN env) \<or> falsy (ASANA_WORKSPACE_ID env) \<longrightarrow>
            snd (tasks_handler parse env up clk req) = []
            \<and> snd (releases_handler parse env up clk req) = [])
      \<and> (\<not> falsy (ASANA_TOKEN env) \<and> \<not> falsy (ASANA_WORKSPACE_ID env) \<longrightarrow>
            (\<exists>workspace rest. ASANA_WORKSPACE_ID env = Some workspace
               \<and> snd (tasks_handler parse env up clk req) = Fetch_projects workspace # rest
               \<and> snd (releases_handler parse env up clk req) = [Fetch_projects workspace])))"
proof (intro conjI impI)
  assume g: "req_method req = ''GET''"
  have snd_t: "snd (tasks_handler parse env up clk req) = snd (tasks_try parse env up (today clk))"
    using g by (auto simp: tasks_handler_GET split: prod.splits sum.splits)
  have snd_r: "snd (releases_handler parse env up clk req) = snd (releases_try parse env up)"
    using g by (auto simp: releases_handler_GET split: prod.splits sum.splits)
  show "status (fst (tasks_handler parse env up clk req)) \<in> {200, 500}"
    using g by (auto simp: tasks_handler_GET split: prod.splits sum.splits)
  show "status (fst (releases_handler parse env up clk req)) \<in> {200, 500}"
    using g by (auto simp: releases_handler_GET split: prod.splits sum.splits)
  {
    assume m: "falsy (ASANA_TOKEN env) \<or> falsy (ASANA_WORKSPACE_ID env)"
    show "snd (tasks_handler parse env up clk req) = []"
      unfolding snd_t by (simp add: tasks_try_missing[OF m])
    show "snd (releases_handler parse env up clk req) = []"
      unfolding snd_r by (simp add: releases_try_missing[OF m])
  }
  {
    assume "\<not> falsy (ASANA_TOKEN env) \<and> \<not> falsy (ASANA_WORKSPACE_ID env)"
    then obtain token workspace where
      cfg: "ASANA_TOKEN env = Some token" "token \<noteq> []"
           "ASANA_WORKSPACE_ID env = Some workspace" "workspace \<noteq> []"
      by (auto simp: falsy_def split: option.splits)
    from tasks_try_fetches_projects[OF cfg, of parse up "today clk"] obtain rest where
      "snd (tasks_try parse env up (today clk)) = Fetch_projects workspace # rest" by blast
    with cfg(3) releases_try_fetches_projects[OF cfg, of parse up] snd_t snd_r
    show "\<exists>workspace rest. ASANA_WORKSPACE_ID env = Some workspace
               \<and> snd (tasks_handler parse env up clk req) = Fetch_projects workspace # rest
               \<and> snd (releases_handler parse env up clk req) = [Fetch_projects workspace]"
      by simp
  }
qed (simp_all add: tasks_handler_def releases_handler_def)

theorem method_dispatch_witness:
  "tasks_handler Date_parse example_env (example_upstream [] (\<lambda>g. [])) example_clock
      \<lparr>req_method = ''OPTIONS''\<rparr> =
     (\<lparr>status = 200, headers = cors_headers, body = No_body\<rparr>, [])
   \<and> releases_handler Date_parse example_env (example_upstream [] (\<lambda>g. [])) example_clock
      \<lparr>req_method = ''OPTIONS''\<rparr> =
     (\<lparr>status = 200, headers = cors_headers, body = No_body\<rparr>, [])
   \<and> tasks_handler Date_parse example_env (example_upstream [] (\<lambda>g. [])) example_clock
      \<lparr>req_method = ''POST''\<rparr> =
     (\<lparr>status = 405, headers = cors_headers,
       body = Json_method_error ''Method not allowed''\<rparr>, [])
   \<and> releases_handler Date_parse example_env (example_upstream [] (\<lambda>g. [])) example_clock
      \<lparr>req_method = ''POST''\<rparr> =
     (\<lparr>status = 405, headers = cors_headers,
       body = Json_method_error ''Method not allowed''\<rparr>, [])
   \<and> snd (releases_handler Date_parse example_env (example_upstream [] (\<lambda>g. [])) example_clock
      \<lparr>req_method = ''GET''\<rparr>) = [Fetch_projects ''42'']
   \<and> snd (tasks_handler Date_parse \<lparr>ASANA_TOKEN = None, ASANA_WORKSPACE_ID = Some ''42''\<rparr>
        (example_upstream [] (\<lambda>g. [])) example_clock \<lparr>req_method = ''GET''\<rparr>) = []"
proof -
  let ?up = "example_upstream [] (\<lambda>g. [])"
  let ?noenv = "\<lparr>ASANA_TOKEN = None, ASANA_WORKSPACE_ID = Some ''42''\<rparr>"
  note O = method_dispatch[of "\<lparr>req_method = ''OPTIONS''\<rparr>" Date_parse example_env ?up example_clock]
  note P = method_dispatch[of "\<lparr>req_method = ''POST''\<rparr>" Date_parse example_env ?up example_clock]
  note G = method_dispatch[of "\<lparr>req_method = ''GET''\<rparr>" Date_parse example_env ?up example_clock]
  note N = method_dispatch[of "\<lparr>req_method = ''GET''\<rparr>" Date_parse ?noenv ?up example_clock]
  have o: "req_method \<lparr>req_method = ''OPTIONS''\<rparr> = ''OPTIONS''" by simp
  have p: "req_method \<lparr>req_method = ''POST''\<rparr> \<noteq> ''OPTIONS''
           \<and> req_method \<lparr>req_method = ''POST''\<rparr> \<noteq> ''GET''" by simp
  have g: "req_method \<lparr>req_method = ''GET''\<rparr> = ''GET''" by simp
  have cfg: "\<not> falsy (ASANA_TOKEN example_env) \<and> \<not> falsy (ASANA_WORKSPACE_ID example_env)"
    by (simp add: falsy_def example_env_def)
  have nocfg: "falsy (ASANA_TOKEN ?noenv) \<or> falsy (ASANA_WORKSPACE_ID ?noenv)"
    by (simp add: falsy_def)
  have ws: "ASANA_WORKSPACE_ID example_env = Some ''42''" by (simp add: example_env_def)
  from O[THEN conjunct1, THEN mp, OF o] P[THEN conjunct2, THEN conjunct1, THEN mp, OF p]
  have first: "tasks_handler Date_parse example_env ?up example_clock
      \<lparr>req_method = ''OPTIONS''\<rparr> =
     (\<lparr>status = 200, headers = cors_headers, body = No_body\<rparr>, [])
   \<and> releases_handler Date_parse example_env ?up example_clock
      \<lparr>req_method = ''OPTIONS''\<rparr> =
     (\<lparr>status = 200, headers = cors_headers, body = No_body\<rparr>, [])
   \<and> tasks_handler Date_parse example_env ?up example_clock
      \<lparr>req_method = ''POST''\<rparr> =
     (\<lparr>status = 405, headers = cors_headers,
       body = Json_method_error ''Method not allowed''\<rparr>, [])
   \<and> releases_handler Date_parse example_env ?up example_clock
      \<lparr>req_method = ''POST''\<rparr> =
     (\<lparr>status = 405, headers = cors_headers,
       body = Json_method_error ''Method not allowed''\<rparr>, [])"
    by simp
  from G[THEN conjunct2, THEN conjunct2, THEN mp, OF g]
  have "\<exists>workspace rest. ASANA_WORKSPACE_ID example_env = Some workspace
               \<and> snd (tasks_handler Date_parse example_env ?up example_clock
                        \<lparr>req_method = ''GET''\<rparr>) = Fetch_projects workspace # rest
               \<and> snd (releases_handler Date_parse example_env ?up example_clock
                        \<lparr>req_method = ''GET''\<rparr>) = [Fetch_projects workspace]"
    using cfg by blast
  then have second: "snd (releases_handler Date_parse example_env ?up example_clock
      \<lparr>req_method = ''GET''\<rparr>) = [Fetch_projects ''42'']"
    using ws by auto
  from N[THEN conjunct2, THEN conjunct2, THEN mp, OF g]
  have third: "snd (tasks_handler Date_parse ?noenv ?up example_clock \<lparr>req_method = ''GET''\<rparr>) = []"
    using nocfg by blast
  from first second third show ?thesis by simp
qed

end
